theory Spec2Isabelle
  imports Complex_Main
begin

section \<open>Numbers and vectors\<close>

text \<open>
  JavaScript numbers are IEEE doubles. They are modelled as \<^typ>\<open>real\<close>: the statements
  below are exact over the reals and hold for the running program up to rounding. The one
  place where a property speaks of reaching a stored number exactly through arithmetic is
  the interpolation \<^verbatim>\<open>lerpVectors\<close>; there the rounding of each operation is explicit.
  A \<^verbatim>\<open>THREE.Vector3\<close> is a triple of numbers; the methods used by the two modules are
  \<^verbatim>\<open>multiplyScalar\<close>, \<^verbatim>\<open>lerpVectors\<close> and \<^verbatim>\<open>distanceTo\<close>.
\<close>

datatype vec3 = Vector3 (vx: real) (vy: real) (vz: real)

definition multiplyScalar :: "vec3 \<Rightarrow> real \<Rightarrow> vec3" where
  "multiplyScalar v k = Vector3 (vx v * k) (vy v * k) (vz v * k)"

text \<open>
  \<^verbatim>\<open>lerpVectors(v1, v2, alpha)\<close> sets each coordinate to \<^verbatim>\<open>v1.x + (v2.x - v1.x) * alpha\<close>.
  The parameter \<open>fl\<close> is the rounding that the arithmetic applies to the result of each
  operation: the identity for exact arithmetic, \<open>binary64\<close> below for the doubles of the
  program.
\<close>

definition lerpVectors :: "(real \<Rightarrow> real) \<Rightarrow> vec3 \<Rightarrow> vec3 \<Rightarrow> real \<Rightarrow> vec3" where
  "lerpVectors fl v1 v2 alpha =
     Vector3 (fl (vx v1 + fl (fl (vx v2 - vx v1) * alpha)))
             (fl (vy v1 + fl (fl (vy v2 - vy v1) * alpha)))
             (fl (vz v1 + fl (fl (vz v2 - vz v1) * alpha)))"

text \<open>
  Rounding to the nearest double, ties to the even significand, for magnitudes in the
  normal range of the format: the result is the nearest multiple of the spacing
  \<open>2 ^ (e - 52)\<close> of the binade \<open>2 ^ e \<le> \<bar>x\<bar> < 2 ^ (e + 1)\<close> that holds \<open>x\<close>.
\<close>

definition roundTiesToEven :: "real \<Rightarrow> int" where
  "roundTiesToEven q =
     (let f = \<lfloor>q\<rfloor>; r = q - of_int f
      in if r < 1 / 2 then f
         else if 1 / 2 < r then f + 1
         else if even f then f else f + 1)"

definition binary64 :: "real \<Rightarrow> real" where
  "binary64 x =
     (if x = 0 then 0
      else
        let e = \<lfloor>log 2 \<bar>x\<bar>\<rfloor>;
            u = 2 powr (of_int e - 52)
        in of_int (roundTiesToEven (x / u)) * u)"

definition distanceTo :: "vec3 \<Rightarrow> vec3 \<Rightarrow> real" where
  "distanceTo a b =
     sqrt ((vx a - vx b) * (vx a - vx b) + (vy a - vy b) * (vy a - vy b)
           + (vz a - vz b) * (vz a - vz b))"

text \<open>\<^verbatim>\<open>Math.atan2(y, x)\<close> over the reals (signed zeros are not distinguished).\<close>

definition atan2 :: "real \<Rightarrow> real \<Rightarrow> real" where
  "atan2 y x =
     (if 0 < x then arctan (y / x)
      else if x < 0 \<and> 0 \<le> y then arctan (y / x) + pi
      else if x < 0 \<and> y < 0 then arctan (y / x) - pi
      else if 0 < y then pi / 2
      else if y < 0 then - (pi / 2)
      else 0)"

section \<open>Camera animator (cameraAnimation.js)\<close>

text \<open>
  The host keeps the timers created by \<^verbatim>\<open>setTimeout\<close> until they fire or are cleared with
  their own handle; overwriting the field \<^verbatim>\<open>interactionTimeout\<close> does not cancel the timer
  whose handle it held. The pending timers are therefore part of the state: each entry is
  the handle, the callback and the delay it was armed with. The two callbacks are the
  arrow functions of \<^verbatim>\<open>onMouseUp\<close> and \<^verbatim>\<open>onUserInteractionEnd\<close>.
\<close>

datatype timer_callback = MouseUpResume | InteractionEndResume

text \<open>
  The fields of \<^verbatim>\<open>CameraAnimator\<close>, with the parts of the camera, the orbit controls and
  the toggle button that the class reads or writes. The orientation of the camera is kept
  as the pair (eye point, looked-at point) of the last \<^verbatim>\<open>camera.lookAt\<close>.
\<close>

record camera_animator =
  cameraPosition :: vec3
  cameraLookAt :: "(vec3 \<times> vec3) option"
  controlsEnabled :: bool
  controlsTarget :: vec3
  target :: vec3
  isAutoRotating :: bool
  rotationSpeed :: real
  radius :: real
  height :: real
  initialAngle :: real
  currentAngle :: real
  userInteracting :: bool
  interactionTimeout :: "nat option"
  resumeDelay :: real
  wasAutoRotatingBeforeInteraction :: bool
  isMouseDown :: bool
  isDragging :: bool
  lastTime :: real
  initialPosition :: vec3
  initialRadius :: real
  initialHeight :: real
  toggleButtonText :: string
  toggleButtonUserInteracting :: bool
  timers :: "(nat \<times> timer_callback \<times> real) list"
  nextTimerId :: nat

definition lookAt :: "vec3 \<Rightarrow> camera_animator \<Rightarrow> camera_animator" where
  "lookAt p s = s\<lparr>cameraLookAt := Some (cameraPosition s, p)\<rparr>"

definition facingTarget :: "camera_animator \<Rightarrow> bool" where
  "facingTarget s \<longleftrightarrow> cameraLookAt s = Some (cameraPosition s, target s)"

definition setTimeout :: "timer_callback \<Rightarrow> real \<Rightarrow> camera_animator \<Rightarrow> nat \<times> camera_animator" where
  "setTimeout cb delay s =
     (nextTimerId s,
      s\<lparr>timers := timers s @ [(nextTimerId s, cb, delay)], nextTimerId := Suc (nextTimerId s)\<rparr>)"

definition clearTimeout :: "nat \<Rightarrow> camera_animator \<Rightarrow> camera_animator" where
  "clearTimeout h s = s\<lparr>timers := filter (\<lambda>t. fst t \<noteq> h) (timers s)\<rparr>"

text \<open>The recurring fragment \<^verbatim>\<open>if (this.interactionTimeout) { clearTimeout(...); ... = null; }\<close>.\<close>

definition clearInteractionTimeout :: "camera_animator \<Rightarrow> camera_animator" where
  "clearInteractionTimeout s =
     (case interactionTimeout s of
        None \<Rightarrow> s
      | Some h \<Rightarrow> (clearTimeout h s)\<lparr>interactionTimeout := None\<rparr>)"

definition calculateInitialAngle :: "vec3 \<Rightarrow> vec3 \<Rightarrow> real" where
  "calculateInitialAngle pos tgt = atan2 (vz pos - vz tgt) (vx pos - vx tgt)"

definition updateCurrentAngle :: "camera_animator \<Rightarrow> camera_animator" where
  "updateCurrentAngle s =
     (let dx = vx (cameraPosition s) - vx (target s);
          dz = vz (cameraPosition s) - vz (target s)
      in s\<lparr>currentAngle := atan2 dz dx, radius := sqrt (dx * dx + dz * dz),
            height := vy (cameraPosition s)\<rparr>)"

text \<open>
  The constructor, from the camera position, the target and the (empty) timer table:
  the field initialisers, then \<^verbatim>\<open>storeInitialState\<close>.
\<close>

definition CameraAnimator :: "vec3 \<Rightarrow> vec3 \<Rightarrow> vec3 \<Rightarrow> bool \<Rightarrow> camera_animator" where
  "CameraAnimator pos ctlTarget tgt ctlEnabled =
     \<lparr>cameraPosition = pos, cameraLookAt = None,
      controlsEnabled = ctlEnabled, controlsTarget = ctlTarget, target = tgt,
      isAutoRotating = True, rotationSpeed = 30,
      radius = distanceTo pos tgt, height = vy pos,
      initialAngle = calculateInitialAngle pos tgt,
      currentAngle = calculateInitialAngle pos tgt,
      userInteracting = False, interactionTimeout = None, resumeDelay = 3000,
      wasAutoRotatingBeforeInteraction = False,
      isMouseDown = False, isDragging = False, lastTime = 0,
      initialPosition = pos, initialRadius = distanceTo pos tgt, initialHeight = vy pos,
      toggleButtonText = [], toggleButtonUserInteracting = False,
      timers = [], nextTimerId = 1\<rparr>"

definition onMouseDown :: "nat \<Rightarrow> camera_animator \<Rightarrow> camera_animator" where
  "onMouseDown button s =
     (if button \<noteq> 0 then s
      else
        let s1 = s\<lparr>isMouseDown := True, isDragging := False\<rparr>
        in if isAutoRotating s1 then
             (clearInteractionTimeout
                (s1\<lparr>wasAutoRotatingBeforeInteraction := True, isAutoRotating := False,
                     userInteracting := True\<rparr>))
               \<lparr>controlsEnabled := True, toggleButtonText := ''Resume Rotation'',
                toggleButtonUserInteracting := True\<rparr>
           else s1)"

definition onMouseMove :: "camera_animator \<Rightarrow> camera_animator" where
  "onMouseMove s =
     (if isMouseDown s then clearInteractionTimeout (s\<lparr>isDragging := True\<rparr>) else s)"

definition onMouseUp :: "nat \<Rightarrow> camera_animator \<Rightarrow> camera_animator" where
  "onMouseUp button s =
     (if button \<noteq> 0 then s
      else
        let s1 = s\<lparr>isMouseDown := False\<rparr>
        in if userInteracting s1 \<and> wasAutoRotatingBeforeInteraction s1 then
             (case setTimeout MouseUpResume (resumeDelay s1) s1 of
                (h, s2) \<Rightarrow> s2\<lparr>interactionTimeout := Some h\<rparr>)
           else s1)"

definition onMouseLeave :: "camera_animator \<Rightarrow> camera_animator" where
  "onMouseLeave s = (if isMouseDown s then onMouseUp 0 s else s)"

definition onUserInteractionStart :: "camera_animator \<Rightarrow> camera_animator" where
  "onUserInteractionStart s =
     (if \<not> isAutoRotating s then s
      else
        let s1 = clearInteractionTimeout (s\<lparr>userInteracting := True\<rparr>);
            s2 = s1\<lparr>wasAutoRotatingBeforeInteraction := isAutoRotating s1\<rparr>;
            s3 = updateCurrentAngle (s2\<lparr>isAutoRotating := False\<rparr>)
        in s3\<lparr>controlsEnabled := True, toggleButtonText := ''Resume Rotation'',
               toggleButtonUserInteracting := True\<rparr>)"

definition onUserInteractionEnd :: "camera_animator \<Rightarrow> camera_animator" where
  "onUserInteractionEnd s =
     (if \<not> userInteracting s then s
      else
        case setTimeout InteractionEndResume (resumeDelay s) s of
          (h, s1) \<Rightarrow> s1\<lparr>interactionTimeout := Some h\<rparr>)"

definition onUserInteractionChange :: "camera_animator \<Rightarrow> camera_animator" where
  "onUserInteractionChange s =
     (let s1 = (if userInteracting s \<and> interactionTimeout s \<noteq> None
                then clearInteractionTimeout s else s)
      in if userInteracting s1 then updateCurrentAngle s1 else s1)"

text \<open>The body of a timer callback, run by the host when the timer fires.\<close>

fun runCallback :: "timer_callback \<Rightarrow> camera_animator \<Rightarrow> camera_animator" where
  "runCallback MouseUpResume s =
     (updateCurrentAngle (s\<lparr>userInteracting := False, isDragging := False,
                            isAutoRotating := True\<rparr>))
       \<lparr>toggleButtonText := ''Pause Rotation'', toggleButtonUserInteracting := False\<rparr>"
| "runCallback InteractionEndResume s =
     (let s1 = s\<lparr>userInteracting := False\<rparr>
      in if wasAutoRotatingBeforeInteraction s1 then
           (updateCurrentAngle (s1\<lparr>isAutoRotating := True\<rparr>))
             \<lparr>toggleButtonText := ''Pause Rotation'', toggleButtonUserInteracting := False\<rparr>
         else s1)"

text \<open>
  The host fires the pending timer with handle \<open>h\<close>: the timer leaves the table and its
  callback runs. A handle that is not pending fires nothing.
\<close>

definition fireTimer :: "nat \<Rightarrow> camera_animator \<Rightarrow> camera_animator" where
  "fireTimer h s =
     (case find (\<lambda>t. fst t = h) (timers s) of
        None \<Rightarrow> s
      | Some t \<Rightarrow> runCallback (fst (snd t)) (clearTimeout h s))"

definition pauseAutoRotation :: "camera_animator \<Rightarrow> camera_animator" where
  "pauseAutoRotation s =
     (updateCurrentAngle (s\<lparr>isAutoRotating := False\<rparr>))
       \<lparr>controlsEnabled := True, toggleButtonUserInteracting := False\<rparr>"

definition resumeAutoRotation :: "camera_animator \<Rightarrow> camera_animator" where
  "resumeAutoRotation s = updateCurrentAngle (s\<lparr>isAutoRotating := True\<rparr>)"

definition toggleAutoRotation :: "camera_animator \<Rightarrow> camera_animator" where
  "toggleAutoRotation s =
     (let s1 = (clearInteractionTimeout s)\<lparr>userInteracting := False\<rparr>;
          s2 = (if isAutoRotating s1
                then (pauseAutoRotation s1)\<lparr>toggleButtonText := ''Resume Rotation''\<rparr>
                else (resumeAutoRotation s1)\<lparr>toggleButtonText := ''Pause Rotation''\<rparr>)
      in s2\<lparr>wasAutoRotatingBeforeInteraction := isAutoRotating s2\<rparr>)"

text \<open>
  \<^verbatim>\<open>controls.update()\<close> belongs to the rendering library. Its outcome is a parameter:
  \<open>None\<close> when the controls leave the camera where it is, \<open>Some p\<close> when they move it to
  \<open>p\<close> and dispatch \<^verbatim>\<open>change\<close>, which runs the handler registered in
  \<^verbatim>\<open>setupControlsListeners\<close>.
\<close>

definition controlsUpdate :: "vec3 option \<Rightarrow> camera_animator \<Rightarrow> camera_animator" where
  "controlsUpdate ctl s =
     (case ctl of
        None \<Rightarrow> s
      | Some p \<Rightarrow> onUserInteractionChange (s\<lparr>cameraPosition := p\<rparr>))"

text \<open>
  \<^verbatim>\<open>update(deltaTime)\<close>; \<open>currentTime\<close> is the value of \<^verbatim>\<open>performance.now()\<close> read at
  the start of the call.
\<close>

definition update :: "real \<Rightarrow> real \<Rightarrow> vec3 option \<Rightarrow> camera_animator \<Rightarrow> camera_animator" where
  "update deltaTime currentTime ctl s =
     (if isAutoRotating s \<and> \<not> userInteracting s \<and> \<not> isMouseDown s then
        let s1 = s\<lparr>controlsEnabled := False\<rparr>;
            rotationRadians = (rotationSpeed s1 * pi / 180) * (deltaTime / 1000);
            s2 = s1\<lparr>currentAngle := currentAngle s1 + rotationRadians\<rparr>;
            x = vx (target s2) + cos (currentAngle s2) * radius s2;
            z = vz (target s2) + sin (currentAngle s2) * radius s2;
            y = height s2;
            s3 = lookAt (target s2) (s2\<lparr>cameraPosition := Vector3 x y z\<rparr>)
        in if currentTime - lastTime s3 > 2000 then s3\<lparr>lastTime := currentTime\<rparr> else s3
      else controlsUpdate ctl (s\<lparr>controlsEnabled := True\<rparr>))"

definition autoRotatingState :: "camera_animator \<Rightarrow> bool" where
  "autoRotatingState s \<longleftrightarrow> isAutoRotating s \<and> \<not> userInteracting s \<and> \<not> isMouseDown s"


text \<open>The point of the orbit that \<^verbatim>\<open>update\<close> computes for the current angle, radius and height.\<close>

definition orbitPosition :: "camera_animator \<Rightarrow> vec3" where
  "orbitPosition s =
     Vector3 (vx (target s) + cos (currentAngle s) * radius s)
             (height s)
             (vz (target s) + sin (currentAngle s) * radius s)"

text \<open>The events the animator receives, and the handler each one runs.\<close>

datatype animator_event =
    MouseDown nat
  | MouseMove
  | MouseUp nat
  | MouseLeave
  | ControlsStart
  | ControlsEnd
  | ControlsChange
  | ToggleClick
  | TimerFires nat
  | Frame real real "vec3 option"

fun handle :: "animator_event \<Rightarrow> camera_animator \<Rightarrow> camera_animator" where
  "handle (MouseDown b) s = onMouseDown b s"
| "handle MouseMove s = onMouseMove s"
| "handle (MouseUp b) s = onMouseUp b s"
| "handle MouseLeave s = onMouseLeave s"
| "handle ControlsStart s = onUserInteractionStart s"
| "handle ControlsEnd s = onUserInteractionEnd s"
| "handle ControlsChange s = onUserInteractionChange s"
| "handle ToggleClick s = toggleAutoRotation s"
| "handle (TimerFires h) s = fireTimer h s"
| "handle (Frame deltaTime currentTime ctl) s = update deltaTime currentTime ctl s"

fun handleAll :: "animator_event list \<Rightarrow> camera_animator \<Rightarrow> camera_animator" where
  "handleAll [] s = s"
| "handleAll (e # es) s = handleAll es (handle e s)"

text \<open>
  \<^verbatim>\<open>resetCamera\<close> and \<^verbatim>\<open>animateToPosition\<close>. The closure \<^verbatim>\<open>animate\<close> captures the start
  position, the target position and the completion callback; \<open>elapsed\<close> is
  \<^verbatim>\<open>Date.now() - startTime\<close> at the frame. The result says whether the closure asked for
  another frame.
\<close>

definition duration :: real where
  "duration = 1000"

definition animate ::
  "(real \<Rightarrow> real) \<Rightarrow> vec3 \<Rightarrow> vec3 \<Rightarrow> (camera_animator \<Rightarrow> camera_animator) option \<Rightarrow> real
     \<Rightarrow> camera_animator \<Rightarrow> bool \<times> camera_animator" where
  "animate fl startPosition targetPosition onComplete elapsed s =
     (let progress = min (elapsed / duration) 1;
          easeOut = 1 - (1 - progress) ^ 3;
          s1 = lookAt (target s)
                 (s\<lparr>cameraPosition := lerpVectors fl startPosition targetPosition easeOut\<rparr>)
      in if progress < 1 then (True, s1)
         else (False, case onComplete of None \<Rightarrow> s1 | Some f \<Rightarrow> f s1))"

text \<open>
  The frames of one animation after the first: each is run by
  \<^verbatim>\<open>requestAnimationFrame\<close>, as long as the previous frame asked for it. A frame is
  given with the events that the animator handles between the previous frame and this
  one (the per-frame \<^verbatim>\<open>update\<close> of the render loop among them) and with its elapsed time.
\<close>

fun animateFrames ::
  "(real \<Rightarrow> real) \<Rightarrow> vec3 \<Rightarrow> vec3 \<Rightarrow> (camera_animator \<Rightarrow> camera_animator) option
     \<Rightarrow> (animator_event list \<times> real) list \<Rightarrow> camera_animator \<Rightarrow> bool \<times> camera_animator" where
  "animateFrames fl sp tp oc [] s = (True, s)"
| "animateFrames fl sp tp oc ((events, elapsed) # fs) s =
     (case animate fl sp tp oc elapsed (handleAll events s) of
        (True, s1) \<Rightarrow> animateFrames fl sp tp oc fs s1
      | (False, s1) \<Rightarrow> (False, s1))"

text \<open>\<^verbatim>\<open>animateToPosition\<close> reads the start position and runs the first frame itself.\<close>

definition animateToPosition ::
  "(real \<Rightarrow> real) \<Rightarrow> vec3 \<Rightarrow> (camera_animator \<Rightarrow> camera_animator) option \<Rightarrow> real
     \<Rightarrow> (animator_event list \<times> real) list \<Rightarrow> camera_animator \<Rightarrow> bool \<times> camera_animator" where
  "animateToPosition fl targetPosition onComplete elapsed fs s =
     animateFrames fl (cameraPosition s) targetPosition onComplete (([], elapsed) # fs) s"

definition resetComplete :: "vec3 option \<Rightarrow> camera_animator \<Rightarrow> camera_animator" where
  "resetComplete ctl s =
     controlsUpdate ctl
       (s\<lparr>currentAngle := initialAngle s, radius := initialRadius s,
          height := initialHeight s, controlsTarget := target s\<rparr>)"

definition resetCamera ::
  "(real \<Rightarrow> real) \<Rightarrow> vec3 option \<Rightarrow> real \<Rightarrow> (animator_event list \<times> real) list
     \<Rightarrow> camera_animator \<Rightarrow> bool \<times> camera_animator" where
  "resetCamera fl ctl elapsed fs s =
     animateToPosition fl (initialPosition s) (Some (resetComplete ctl)) elapsed fs s"

section \<open>Interaction manager (interaction.js)\<close>

text \<open>
  Materials are objects that several meshes may share, so they live in a store indexed by
  reference; \<^verbatim>\<open>clone()\<close> allocates the next free reference and copies the parameters.
  A mesh is identified by its \<^verbatim>\<open>uuid\<close>, which is unique per object; the fields of
  \<^verbatim>\<open>userData\<close> that the manager uses are fields of the mesh record. A material slot or an
  original scale that is \<^verbatim>\<open>undefined\<close> is \<open>None\<close>.
\<close>

record standard_material =
  color :: nat
  roughness :: real
  metalness :: real
  emissive :: nat
  emissiveIntensity :: real

record mesh =
  material :: "nat option"
  scale :: vec3
  originalScale :: "vec3 option"
  hovering :: bool
  hoverTime :: real
  pulsing :: bool
  pulseTime :: real
  name :: "string option"

datatype error = TypeError

record interaction_manager =
  materialStore :: "nat \<Rightarrow> standard_material"
  materialNext :: nat
  meshes :: "nat \<Rightarrow> mesh"
  productParts :: "nat list"
  hoveredObject :: "nat option"
  selectedObject :: "nat option"
  originalMaterials :: "nat \<rightharpoonup> nat"
  partInfoHidden :: bool
  partNameText :: string
  cursor :: string

definition clone :: "nat \<Rightarrow> interaction_manager \<Rightarrow> nat \<times> interaction_manager" where
  "clone r s =
     (materialNext s,
      s\<lparr>materialStore := (materialStore s)(materialNext s := materialStore s r),
        materialNext := Suc (materialNext s)\<rparr>)"

text \<open>\<^verbatim>\<open>storeMaterials\<close>: one clone per part, kept under the part's uuid.\<close>

fun storeMaterials :: "nat list \<Rightarrow> interaction_manager \<Rightarrow> error + interaction_manager" where
  "storeMaterials [] s = Inr s"
| "storeMaterials (part # ps) s =
     (case material (meshes s part) of
        None \<Rightarrow> Inl TypeError
      | Some r \<Rightarrow>
          (case clone r s of
             (c, s1) \<Rightarrow>
               storeMaterials ps (s1\<lparr>originalMaterials := (originalMaterials s1)(part \<mapsto> c)\<rparr>)))"

text \<open>
  The constructor, from the material store, the meshes and the list of interactive
  parts that the product builder hands over.
\<close>

definition InteractionManager ::
  "(nat \<Rightarrow> standard_material) \<Rightarrow> nat \<Rightarrow> (nat \<Rightarrow> mesh) \<Rightarrow> nat list
     \<Rightarrow> error + interaction_manager" where
  "InteractionManager store next ms parts =
     storeMaterials parts
       \<lparr>materialStore = store, materialNext = next, meshes = ms, productParts = parts,
        hoveredObject = None, selectedObject = None, originalMaterials = Map.empty,
        partInfoHidden = True, partNameText = [], cursor = ''default''\<rparr>"

definition setEmissive :: "nat \<Rightarrow> nat \<Rightarrow> real \<Rightarrow> interaction_manager \<Rightarrow> interaction_manager" where
  "setEmissive r c i s =
     s\<lparr>materialStore :=
         (materialStore s)(r := (materialStore s r)\<lparr>emissive := c, emissiveIntensity := i\<rparr>)\<rparr>"

definition setMesh :: "nat \<Rightarrow> mesh \<Rightarrow> interaction_manager \<Rightarrow> interaction_manager" where
  "setMesh object m s = s\<lparr>meshes := (meshes s)(object := m)\<rparr>"

text \<open>\<^verbatim>\<open>object.scale.copy(object.userData.originalScale)\<close>, guarded by the truthiness test.\<close>

definition restoreScale :: "mesh \<Rightarrow> mesh" where
  "restoreScale m = (case originalScale m of None \<Rightarrow> m | Some v \<Rightarrow> m\<lparr>scale := v\<rparr>)"

text \<open>\<^verbatim>\<open>if (!object.userData.originalScale) object.userData.originalScale = object.scale.clone()\<close>.\<close>

definition rememberScale :: "mesh \<Rightarrow> mesh" where
  "rememberScale m =
     (case originalScale m of None \<Rightarrow> m\<lparr>originalScale := Some (scale m)\<rparr> | Some v \<Rightarrow> m)"

definition applyHoverEffect :: "nat \<Rightarrow> interaction_manager \<Rightarrow> error + interaction_manager" where
  "applyHoverEffect object s =
     (if selectedObject s = Some object then Inr s
      else
        case originalMaterials s object of
          None \<Rightarrow> Inl TypeError
        | Some r \<Rightarrow>
            (case clone r s of
               (hoverMaterial, s1) \<Rightarrow>
                 let s2 = setEmissive hoverMaterial 0x4444FF 0.4 s1;
                     m1 = rememberScale ((meshes s2 object)\<lparr>material := Some hoverMaterial\<rparr>);
                     m2 = m1\<lparr>scale := multiplyScalar (scale m1) 1.05,
                             hovering := True, hoverTime := 0\<rparr>
                 in Inr (setMesh object m2 s2)))"

definition applySelectionEffect :: "nat \<Rightarrow> interaction_manager \<Rightarrow> error + interaction_manager" where
  "applySelectionEffect object s =
     (case originalMaterials s object of
        None \<Rightarrow> Inl TypeError
      | Some r \<Rightarrow>
          (case clone r s of
             (selectionMaterial, s1) \<Rightarrow>
               let s2 = setEmissive selectionMaterial 0x4444FF 0.5 s1;
                   m1 = (meshes s2 object)\<lparr>material := Some selectionMaterial\<rparr>;
                   m2 = (if hovering m1 then m1\<lparr>hovering := False\<rparr> else m1)
               in Inr (setMesh object m2 s2)))"

definition clearHover :: "interaction_manager \<Rightarrow> interaction_manager" where
  "clearHover s =
     (case hoveredObject s of
        None \<Rightarrow> s
      | Some h \<Rightarrow>
          if hoveredObject s \<noteq> selectedObject s then
            (setMesh h
               ((restoreScale ((meshes s h)\<lparr>material := originalMaterials s h\<rparr>))
                  \<lparr>hovering := False\<rparr>) s)
              \<lparr>hoveredObject := None\<rparr>
          else s)
       \<lparr>cursor := ''default''\<rparr>"

definition clearSelectionEffect :: "nat \<Rightarrow> interaction_manager \<Rightarrow> interaction_manager" where
  "clearSelectionEffect object s =
     setMesh object
       ((restoreScale ((meshes s object)\<lparr>material := originalMaterials s object\<rparr>))
          \<lparr>hovering := False\<rparr>) s"

definition addPulseAnimation :: "nat \<Rightarrow> interaction_manager \<Rightarrow> interaction_manager" where
  "addPulseAnimation object s =
     setMesh object ((rememberScale (meshes s object))\<lparr>pulsing := True, pulseTime := 0\<rparr>) s"

definition removePulseAnimation :: "nat \<Rightarrow> interaction_manager \<Rightarrow> interaction_manager" where
  "removePulseAnimation object s =
     (if pulsing (meshes s object)
      then setMesh object (restoreScale ((meshes s object)\<lparr>pulsing := False\<rparr>)) s
      else s)"

definition showPartInfo :: "nat \<Rightarrow> interaction_manager \<Rightarrow> interaction_manager" where
  "showPartInfo object s =
     s\<lparr>partNameText :=
         (case name (meshes s object) of
            None \<Rightarrow> ''Unknown Part''
          | Some n \<Rightarrow> if n = [] then ''Unknown Part'' else n),
       partInfoHidden := False\<rparr>"

definition hidePartInfo :: "interaction_manager \<Rightarrow> interaction_manager" where
  "hidePartInfo s = s\<lparr>partInfoHidden := True\<rparr>"

definition deselectObject :: "interaction_manager \<Rightarrow> interaction_manager" where
  "deselectObject s =
     hidePartInfo
       (case selectedObject s of
          None \<Rightarrow> s
        | Some p \<Rightarrow>
            (removePulseAnimation p (clearSelectionEffect p s))\<lparr>selectedObject := None\<rparr>)"

definition selectObject :: "nat \<Rightarrow> interaction_manager \<Rightarrow> error + interaction_manager" where
  "selectObject object s =
     (case applySelectionEffect object ((deselectObject s)\<lparr>selectedObject := Some object\<rparr>) of
        Inl e \<Rightarrow> Inl e
      | Inr s1 \<Rightarrow> Inr (addPulseAnimation object (showPartInfo object s1)))"

text \<open>
  The raycaster belongs to the rendering library. The handlers take its result: the
  interactive meshes hit by the ray, nearest first.
\<close>

definition handleHover :: "nat list \<Rightarrow> interaction_manager \<Rightarrow> error + interaction_manager" where
  "handleHover intersects s =
     (case intersects of
        [] \<Rightarrow> Inr (clearHover s)
      | hovered # _ \<Rightarrow>
          if hoveredObject s \<noteq> Some hovered then
            (case applyHoverEffect hovered ((clearHover s)\<lparr>hoveredObject := Some hovered\<rparr>) of
               Inl e \<Rightarrow> Inl e
             | Inr s1 \<Rightarrow> Inr (s1\<lparr>cursor := ''pointer''\<rparr>))
          else Inr s)"

definition handleClick :: "nat list \<Rightarrow> interaction_manager \<Rightarrow> error + interaction_manager" where
  "handleClick intersects s =
     (case intersects of
        [] \<Rightarrow> Inr (deselectObject s)
      | clicked # _ \<Rightarrow> selectObject clicked s)"

text \<open>The body of the \<^verbatim>\<open>forEach\<close> in \<^verbatim>\<open>updatePulseAnimations\<close>, for one part.\<close>

definition updatePart :: "real \<Rightarrow> nat \<Rightarrow> interaction_manager \<Rightarrow> interaction_manager" where
  "updatePart deltaTime part s =
     (let s1 =
            (if pulsing (meshes s part) then
               let m1 = (meshes s part)\<lparr>pulseTime := pulseTime (meshes s part) + deltaTime\<rparr>;
                   pulseScale = 1 + sin (pulseTime m1 * 0.01) * 0.05;
                   original = (case originalScale m1 of None \<Rightarrow> Vector3 1 1 1 | Some v \<Rightarrow> v);
                   s' = setMesh part (m1\<lparr>scale := multiplyScalar original pulseScale\<rparr>) s
               in if pulseTime (meshes s' part) > 6280 then removePulseAnimation part s' else s'
             else s)
      in if hovering (meshes s1 part) \<and> \<not> pulsing (meshes s1 part) then
           let m1 = (meshes s1 part)\<lparr>hoverTime := hoverTime (meshes s1 part) + deltaTime\<rparr>;
               breathScale = 1.05 + sin (hoverTime m1 * 0.005) * 0.01;
               original = (case originalScale m1 of None \<Rightarrow> Vector3 1 1 1 | Some v \<Rightarrow> v)
           in setMesh part (m1\<lparr>scale := multiplyScalar original breathScale\<rparr>) s1
         else s1)"

fun updateParts :: "real \<Rightarrow> nat list \<Rightarrow> interaction_manager \<Rightarrow> interaction_manager" where
  "updateParts deltaTime [] s = s"
| "updateParts deltaTime (part # ps) s = updateParts deltaTime ps (updatePart deltaTime part s)"

definition updatePulseAnimations :: "real \<Rightarrow> interaction_manager \<Rightarrow> interaction_manager" where
  "updatePulseAnimations deltaTime s = updateParts deltaTime (productParts s) s"

fun updatePulseFrames :: "real list \<Rightarrow> interaction_manager \<Rightarrow> interaction_manager" where
  "updatePulseFrames [] s = s"
| "updatePulseFrames (deltaTime # ds) s = updatePulseFrames ds (updatePulseAnimations deltaTime s)"

text \<open>The events the manager receives, and the handler each one runs.\<close>

datatype interaction_event =
    PointerMove "nat list"
  | PointerClick "nat list"
  | PointerLeave
  | CloseInfo
  | Tick real

fun react :: "interaction_event \<Rightarrow> interaction_manager \<Rightarrow> error + interaction_manager" where
  "react (PointerMove intersects) s = handleHover intersects s"
| "react (PointerClick intersects) s = handleClick intersects s"
| "react PointerLeave s = Inr (clearHover s)"
| "react CloseInfo s = Inr (hidePartInfo s)"
| "react (Tick deltaTime) s = Inr (updatePulseAnimations deltaTime s)"

fun reactAll :: "interaction_event list \<Rightarrow> interaction_manager \<Rightarrow> error + interaction_manager" where
  "reactAll [] s = Inr s"
| "reactAll (e # es) s =
     (case react e s of Inl err \<Rightarrow> Inl err | Inr s1 \<Rightarrow> reactAll es s1)"

text \<open>
  What the handlers maintain between events. A stored original material has been
  allocated; a pulsing part is the selected one, has an original scale and has not passed
  the pulse bound; a part with the hover flag is the hovered one and is not selected; the
  selected part has an original scale; a part that is neither hovered nor selected has
  its original scale, once one is recorded.
\<close>

definition consistent :: "interaction_manager \<Rightarrow> bool" where
  "consistent s \<longleftrightarrow>
     (\<forall>p r. originalMaterials s p = Some r \<longrightarrow> r < materialNext s)
     \<and> (\<forall>p. pulsing (meshes s p) \<longrightarrow>
            selectedObject s = Some p \<and> pulseTime (meshes s p) \<le> 6280)
     \<and> (\<forall>p. hovering (meshes s p) \<longrightarrow>
            hoveredObject s = Some p \<and> selectedObject s \<noteq> Some p
            \<and> originalScale (meshes s p) \<noteq> None)
     \<and> (\<forall>p. selectedObject s = Some p \<longrightarrow> originalScale (meshes s p) \<noteq> None)
     \<and> (\<forall>p v. hoveredObject s \<noteq> Some p \<longrightarrow> selectedObject s \<noteq> Some p \<longrightarrow>
            originalScale (meshes s p) = Some v \<longrightarrow> scale (meshes s p) = v)"

text \<open>
  One state keeps the materials of another when it has allocated no fewer references,
  holds the same stored originals and has left every material that existed unchanged.
\<close>

definition keepsMaterials :: "interaction_manager \<Rightarrow> interaction_manager \<Rightarrow> bool" where
  "keepsMaterials s s' \<longleftrightarrow>
     materialNext s \<le> materialNext s' \<and> originalMaterials s' = originalMaterials s
     \<and> (\<forall>r<materialNext s. materialStore s' r = materialStore s r)"

subsection \<open>The product builder's materials and first parts (createProduct.js)\<close>

text \<open>
  \<^verbatim>\<open>createMaterials\<close> makes three shared materials, here at the references 0, 1 and 2;
  a new \<^verbatim>\<open>MeshStandardMaterial\<close> has a black emissive colour of intensity 1.
  \<^verbatim>\<open>createSeat\<close> and \<^verbatim>\<open>createBackrest\<close> push the seat (cushion), the backrest (wood) and
  the support bars (wood); a new mesh has scale \<open>(1, 1, 1)\<close> and a \<^verbatim>\<open>userData\<close> with a name
  and no animation field (the two timers, not yet defined, are 0 here).
\<close>

definition wood :: standard_material where
  "wood = \<lparr>color = 0x8B4513, roughness = 0.8, metalness = 0.1,
           emissive = 0x000000, emissiveIntensity = 1\<rparr>"

definition cushion :: standard_material where
  "cushion = \<lparr>color = 0x4169E1, roughness = 0.6, metalness = 0.0,
              emissive = 0x000000, emissiveIntensity = 1\<rparr>"

definition metal :: standard_material where
  "metal = \<lparr>color = 0x888888, roughness = 0.3, metalness = 0.7,
            emissive = 0x000000, emissiveIntensity = 1\<rparr>"

definition createMaterials :: "nat \<Rightarrow> standard_material" where
  "createMaterials r = (if r = 0 then wood else if r = 1 then cushion else metal)"

definition newMesh :: "nat \<Rightarrow> string \<Rightarrow> mesh" where
  "newMesh r n =
     \<lparr>material = Some r, scale = Vector3 1 1 1, originalScale = None,
      hovering = False, hoverTime = 0, pulsing = False, pulseTime = 0, name = Some n\<rparr>"

definition chairMeshes :: "nat \<Rightarrow> mesh" where
  "chairMeshes p =
     (if p = 0 then newMesh 1 ''Chair Seat''
      else if p = 1 then newMesh 0 ''Chair Backrest''
      else newMesh 0 ''Backrest Support'')"

definition chairParts :: "nat list" where
  "chairParts = [0, 1, 2]"

text \<open>
  The interaction manager that the application driver constructs, cut down to these
  first three of the chair's parts.
\<close>

definition viewer :: "error + interaction_manager" where
  "viewer = InteractionManager createMaterials 3 chairMeshes chairParts"

section \<open>Properties of the camera animator\<close>

subsection \<open>The per-frame update\<close>

lemma controlsUpdate_enabled: "controlsEnabled (controlsUpdate ctl s) = controlsEnabled s"
  by (cases ctl)
     (simp_all add: controlsUpdate_def onUserInteractionChange_def clearInteractionTimeout_def
        clearTimeout_def updateCurrentAngle_def Let_def split: option.splits)

lemma controlsUpdate_flags:
  "isAutoRotating (controlsUpdate ctl s) = isAutoRotating s"
  "userInteracting (controlsUpdate ctl s) = userInteracting s"
  "isMouseDown (controlsUpdate ctl s) = isMouseDown s"
  by (cases ctl;
      simp add: controlsUpdate_def onUserInteractionChange_def clearInteractionTimeout_def
        clearTimeout_def updateCurrentAngle_def Let_def split: option.splits)+

lemma update_auto:
  assumes "autoRotatingState s"
  shows "update dt now ctl s =
     (s\<lparr>controlsEnabled := False,
        currentAngle := currentAngle s + (rotationSpeed s * pi / 180) * (dt / 1000),
        cameraPosition :=
          orbitPosition
            (s\<lparr>currentAngle := currentAngle s + (rotationSpeed s * pi / 180) * (dt / 1000)\<rparr>),
        cameraLookAt :=
          Some (orbitPosition
                  (s\<lparr>currentAngle := currentAngle s + (rotationSpeed s * pi / 180) * (dt / 1000)\<rparr>),
                target s),
        lastTime := (if now - lastTime s > 2000 then now else lastTime s)\<rparr>)"
  using assms
  by (simp add: update_def autoRotatingState_def Let_def lookAt_def orbitPosition_def)

lemma update_manual:
  assumes "\<not> autoRotatingState s"
  shows "update dt now ctl s = controlsUpdate ctl (s\<lparr>controlsEnabled := True\<rparr>)"
  using assms by (auto simp add: update_def autoRotatingState_def)

lemma update_autoRotatingState: "autoRotatingState (update dt now ctl s) = autoRotatingState s"
  by (simp add: update_def autoRotatingState_def Let_def lookAt_def controlsUpdate_flags)

lemma orbit_circle: "(cos a * r)\<^sup>2 + (sin a * r)\<^sup>2 = r\<^sup>2" for a r :: real
proof -
  have "(cos a * r)\<^sup>2 + (sin a * r)\<^sup>2 = (cos a)\<^sup>2 * r\<^sup>2 + (sin a)\<^sup>2 * r\<^sup>2"
    by (simp add: power_mult_distrib)
  also have "\<dots> = ((cos a)\<^sup>2 + (sin a)\<^sup>2) * r\<^sup>2"
    by (rule distrib_right [symmetric])
  also have "\<dots> = r\<^sup>2"
    by simp
  finally show ?thesis .
qed

text \<open>
  Claim C6. A call to \<^verbatim>\<open>update\<close> does not change whether the animator is in the
  auto-rotating state (auto-rotation on, no user interaction, mouse not down). In that
  state the call disables the orbit controls, leaves \<open>radius\<close>, \<open>height\<close> and the target as
  they were, advances \<open>currentAngle\<close> by the rotation speed times the frame time, and
  moves the camera to the point at that angle on the circle of radius \<open>radius\<close> around the
  target at height \<open>height\<close>, facing the target; in every other state the call enables
  the controls. This holds whatever the library call \<^verbatim>\<open>controls.update()\<close> does.
\<close>

theorem update_controls_and_orbit:
  fixes s :: camera_animator and dt now :: real and ctl :: "vec3 option"
  defines "s' \<equiv> update dt now ctl s"
  shows "autoRotatingState s' = autoRotatingState s
         \<and> (autoRotatingState s' \<longrightarrow>
            \<not> controlsEnabled s'
            \<and> radius s' = radius s \<and> height s' = height s \<and> target s' = target s
            \<and> currentAngle s' = currentAngle s + (rotationSpeed s * pi / 180) * (dt / 1000)
            \<and> cameraPosition s'
                = Vector3 (vx (target s) + cos (currentAngle s') * radius s)
                          (height s)
                          (vz (target s) + sin (currentAngle s') * radius s)
            \<and> (vx (cameraPosition s') - vx (target s'))\<^sup>2
              + (vz (cameraPosition s') - vz (target s'))\<^sup>2 = (radius s')\<^sup>2
            \<and> vy (cameraPosition s') = height s'
            \<and> facingTarget s')
         \<and> (\<not> autoRotatingState s' \<longrightarrow> controlsEnabled s')"
proof (cases "autoRotatingState s")
  case True
  then have auto': "autoRotatingState s'"
    by (simp add: s'_def update_autoRotatingState)
  have fields: "\<not> controlsEnabled s'" "radius s' = radius s" "height s' = height s"
    "target s' = target s"
    "currentAngle s' = currentAngle s + (rotationSpeed s * pi / 180) * (dt / 1000)"
    "vy (cameraPosition s') = height s'" "facingTarget s'"
    using True by (simp_all add: s'_def update_auto orbitPosition_def facingTarget_def)
  have pos: "cameraPosition s'
                = Vector3 (vx (target s) + cos (currentAngle s') * radius s)
                          (height s)
                          (vz (target s) + sin (currentAngle s') * radius s)"
    using True by (simp add: s'_def update_auto orbitPosition_def)
  have circle: "(vx (cameraPosition s') - vx (target s'))\<^sup>2
              + (vz (cameraPosition s') - vz (target s'))\<^sup>2 = (radius s')\<^sup>2"
    unfolding pos fields(2,4) by (simp add: orbit_circle)
  show ?thesis
    using True auto' fields pos circle by simp
next
  case False
  then have "\<not> autoRotatingState s'"
    by (simp add: s'_def update_autoRotatingState)
  moreover have "controlsEnabled s'"
    using False by (simp add: s'_def update_manual controlsUpdate_enabled)
  ultimately show ?thesis
    using False by simp
qed

theorem update_controls_and_orbit_witness:
  "autoRotatingState
     (update 16 0 None (CameraAnimator (Vector3 5 3 5) (Vector3 0 1 0) (Vector3 0 1 0) True))
   \<and> \<not> controlsEnabled
     (update 16 0 None (CameraAnimator (Vector3 5 3 5) (Vector3 0 1 0) (Vector3 0 1 0) True))
   \<and> radius
     (update 16 0 None (CameraAnimator (Vector3 5 3 5) (Vector3 0 1 0) (Vector3 0 1 0) True))
       = radius (CameraAnimator (Vector3 5 3 5) (Vector3 0 1 0) (Vector3 0 1 0) True)
   \<and> height
     (update 16 0 None (CameraAnimator (Vector3 5 3 5) (Vector3 0 1 0) (Vector3 0 1 0) True))
       = 3
   \<and> vy (cameraPosition
     (update 16 0 None (CameraAnimator (Vector3 5 3 5) (Vector3 0 1 0) (Vector3 0 1 0) True)))
       = 3
   \<and> facingTarget
     (update 16 0 None (CameraAnimator (Vector3 5 3 5) (Vector3 0 1 0) (Vector3 0 1 0) True))
   \<and> \<not> autoRotatingState
     (update 16 0 None
        (onMouseDown 0 (CameraAnimator (Vector3 5 3 5) (Vector3 0 1 0) (Vector3 0 1 0) False)))
   \<and> controlsEnabled
     (update 16 0 None
        (onMouseDown 0 (CameraAnimator (Vector3 5 3 5) (Vector3 0 1 0) (Vector3 0 1 0) False)))"
proof -
  have a: "autoRotatingState (CameraAnimator (Vector3 5 3 5) (Vector3 0 1 0) (Vector3 0 1 0) True)"
    "height (CameraAnimator (Vector3 5 3 5) (Vector3 0 1 0) (Vector3 0 1 0) True) = 3"
    by (simp_all add: autoRotatingState_def CameraAnimator_def)
  have b: "\<not> autoRotatingState
        (onMouseDown 0 (CameraAnimator (Vector3 5 3 5) (Vector3 0 1 0) (Vector3 0 1 0) False))"
    by (simp add: autoRotatingState_def CameraAnimator_def onMouseDown_def Let_def
          clearInteractionTimeout_def)
  show ?thesis
    using a b
      update_controls_and_orbit
        [of 16 0 None "CameraAnimator (Vector3 5 3 5) (Vector3 0 1 0) (Vector3 0 1 0) True"]
      update_controls_and_orbit
        [of 16 0 None
           "onMouseDown 0 (CameraAnimator (Vector3 5 3 5) (Vector3 0 1 0) (Vector3 0 1 0) False)"]
    by simp
qed

subsection \<open>One full rotation period\<close>








subsection \<open>Pausing on a drag, the resume timer and the manual toggle\<close>

lemmas handler_defs =
  onMouseDown_def onMouseUp_def onMouseMove_def onMouseLeave_def
  onUserInteractionStart_def onUserInteractionEnd_def onUserInteractionChange_def
  toggleAutoRotation_def pauseAutoRotation_def resumeAutoRotation_def
  fireTimer_def clearInteractionTimeout_def clearTimeout_def setTimeout_def
  updateCurrentAngle_def Let_def

text \<open>
  When the only pending timer is the one whose handle is in \<open>interactionTimeout\<close>,
  clearing that handle empties the timer table.
\<close>

lemma clearInteractionTimeout_tracked:
  assumes "\<forall>t\<in>set (timers s). interactionTimeout s = Some (fst t)"
  shows "timers (clearInteractionTimeout s) = []"
    and "interactionTimeout (clearInteractionTimeout s) = None"
proof -
  show "interactionTimeout (clearInteractionTimeout s) = None"
    by (simp add: clearInteractionTimeout_def clearTimeout_def split: option.splits)
  show "timers (clearInteractionTimeout s) = []"
  proof (cases "interactionTimeout s")
    case None
    then have "timers s = []"
      using assms by (cases "timers s") auto
    then show ?thesis
      by (simp add: clearInteractionTimeout_def None)
  next
    case (Some h)
    then have "\<forall>t\<in>set (timers s). fst t = h"
      using assms by auto
    then have "filter (\<lambda>t. fst t \<noteq> h) (timers s) = []"
      by (simp add: filter_empty_conv)
    then show ?thesis
      by (simp add: clearInteractionTimeout_def clearTimeout_def Some)
  qed
qed

text \<open>
  The intended course of a drag, for a state whose only pending timer is the tracked one:
  the mouse-down pauses at once and leaves no timer pending, the mouse-up arms one timer
  with the delay \<open>resumeDelay\<close>, and when that timer fires, with the camera at any
  position \<open>p\<close> by then, rotation is on again and angle, radius and height are those of \<open>p\<close>.
\<close>

lemma drag_pauses_and_timer_resumes:
  fixes s :: camera_animator and p :: vec3
  assumes auto: "isAutoRotating s"
    and tracked: "\<forall>t\<in>set (timers s). interactionTimeout s = Some (fst t)"
  defines "s1 \<equiv> onMouseDown 0 s"
  defines "s2 \<equiv> onMouseUp 0 s1"
  defines "s3 \<equiv> fireTimer (nextTimerId s) (s2\<lparr>cameraPosition := p\<rparr>)"
  shows "\<not> isAutoRotating s1 \<and> userInteracting s1 \<and> timers s1 = []
       \<and> interactionTimeout s1 = None"
    and "timers s2 = [(nextTimerId s, MouseUpResume, resumeDelay s)]
       \<and> interactionTimeout s2 = Some (nextTimerId s) \<and> \<not> isAutoRotating s2"
    and "isAutoRotating s3 \<and> \<not> userInteracting s3 \<and> timers s3 = []
       \<and> currentAngle s3 = atan2 (vz p - vz (target s)) (vx p - vx (target s))
       \<and> radius s3 = sqrt ((vx p - vx (target s)) * (vx p - vx (target s))
                            + (vz p - vz (target s)) * (vz p - vz (target s)))
       \<and> height s3 = vy p"
proof -
  let ?c = "clearInteractionTimeout
              (s\<lparr>isMouseDown := True, isDragging := False,
                 wasAutoRotatingBeforeInteraction := True, isAutoRotating := False,
                 userInteracting := True\<rparr>)"
  have s1: "s1 = ?c\<lparr>controlsEnabled := True, toggleButtonText := ''Resume Rotation'',
                     toggleButtonUserInteracting := True\<rparr>"
    using auto by (simp add: s1_def onMouseDown_def Let_def)
  have c_timers: "timers ?c = []" and c_handle: "interactionTimeout ?c = None"
    using tracked by (simp_all add: clearInteractionTimeout_tracked)
  have c_fields: "\<not> isAutoRotating ?c" "userInteracting ?c"
    "wasAutoRotatingBeforeInteraction ?c" "nextTimerId ?c = nextTimerId s"
    "resumeDelay ?c = resumeDelay s" "target ?c = target s"
    by (simp_all add: clearInteractionTimeout_def clearTimeout_def split: option.splits)
  show g1: "\<not> isAutoRotating s1 \<and> userInteracting s1 \<and> timers s1 = []
       \<and> interactionTimeout s1 = None"
    by (simp add: s1 c_timers c_handle c_fields)
  show g2: "timers s2 = [(nextTimerId s, MouseUpResume, resumeDelay s)]
       \<and> interactionTimeout s2 = Some (nextTimerId s) \<and> \<not> isAutoRotating s2"
    by (simp add: s2_def s1 onMouseUp_def setTimeout_def Let_def c_timers c_fields)
  have t2: "target s2 = target s"
    by (simp add: s2_def s1 onMouseUp_def setTimeout_def Let_def c_fields)
  show "isAutoRotating s3 \<and> \<not> userInteracting s3 \<and> timers s3 = []
       \<and> currentAngle s3 = atan2 (vz p - vz (target s)) (vx p - vx (target s))
       \<and> radius s3 = sqrt ((vx p - vx (target s)) * (vx p - vx (target s))
                            + (vz p - vz (target s)) * (vz p - vz (target s)))
       \<and> height s3 = vy p"
    using g2 t2
    by (simp add: s3_def fireTimer_def clearTimeout_def updateCurrentAngle_def Let_def)
qed

text \<open>
  The manual toggle, for a state whose only pending timer is the tracked one: no timer
  is left, the interaction flag is off and the rotation flag is negated.
\<close>

lemma toggleAutoRotation_tracked:
  assumes "\<forall>t\<in>set (timers s). interactionTimeout s = Some (fst t)"
  shows "timers (toggleAutoRotation s) = []"
    and "\<not> userInteracting (toggleAutoRotation s)"
    and "isAutoRotating (toggleAutoRotation s) \<longleftrightarrow> \<not> isAutoRotating s"
proof -
  let ?c = "clearInteractionTimeout s"
  have c: "timers ?c = []" "isAutoRotating ?c = isAutoRotating s"
    using assms
    by (simp_all add: clearInteractionTimeout_tracked)
       (simp add: clearInteractionTimeout_def clearTimeout_def split: option.splits)
  show "timers (toggleAutoRotation s) = []"
    by (simp add: toggleAutoRotation_def pauseAutoRotation_def resumeAutoRotation_def
        updateCurrentAngle_def Let_def c)
  show "\<not> userInteracting (toggleAutoRotation s)"
    by (simp add: toggleAutoRotation_def pauseAutoRotation_def resumeAutoRotation_def
        updateCurrentAngle_def Let_def)
  show "isAutoRotating (toggleAutoRotation s) \<longleftrightarrow> \<not> isAutoRotating s"
    by (simp add: toggleAutoRotation_def pauseAutoRotation_def resumeAutoRotation_def
        updateCurrentAngle_def Let_def c)
qed

text \<open>
  With rotation off, no interaction in progress and no timer pending, every event other
  than a click on the toggle button keeps all three so.
\<close>

lemma handle_keeps_off:
  assumes "\<not> isAutoRotating s" and "\<not> userInteracting s" and "timers s = []"
    and "e \<noteq> ToggleClick"
  shows "\<not> isAutoRotating (handle e s) \<and> \<not> userInteracting (handle e s)
       \<and> timers (handle e s) = []"
proof (cases e)
  case (Frame dt now ctl)
  have "\<not> autoRotatingState s"
    using assms(1) by (simp add: autoRotatingState_def)
  then show ?thesis
    using assms(1-3)
    by (cases ctl)
       (simp_all add: Frame update_manual controlsUpdate_def onUserInteractionChange_def Let_def)
next
  case (MouseDown b)
  then show ?thesis using assms by (simp add: onMouseDown_def Let_def)
next
  case MouseMove
  then show ?thesis
    using assms
    by (simp add: onMouseMove_def clearInteractionTimeout_def clearTimeout_def
        split: option.splits)
next
  case (MouseUp b)
  then show ?thesis using assms by (simp add: onMouseUp_def Let_def)
next
  case MouseLeave
  then show ?thesis using assms by (simp add: onMouseLeave_def onMouseUp_def Let_def)
next
  case ControlsStart
  then show ?thesis using assms by (simp add: onUserInteractionStart_def)
next
  case ControlsEnd
  then show ?thesis using assms by (simp add: onUserInteractionEnd_def)
next
  case ControlsChange
  then show ?thesis using assms by (simp add: onUserInteractionChange_def Let_def)
next
  case ToggleClick
  then show ?thesis using assms by simp
next
  case (TimerFires h)
  then show ?thesis using assms by (simp add: fireTimer_def)
qed

lemma handleAll_keeps_off:
  assumes "\<not> isAutoRotating s" and "\<not> userInteracting s" and "timers s = []"
    and "ToggleClick \<notin> set es"
  shows "\<not> isAutoRotating (handleAll es s) \<and> \<not> userInteracting (handleAll es s)
       \<and> timers (handleAll es s) = []"
  using assms
proof (induction es arbitrary: s)
  case Nil
  then show ?case by simp
next
  case (Cons e es)
  have "e \<noteq> ToggleClick" "ToggleClick \<notin> set es"
    using Cons.prems(4) by auto
  then show ?case
    using handle_keeps_off [OF Cons.prems(1-3), of e] Cons.IH by simp
qed

text \<open>
  Claim C2. A drag that begins while the animator is auto-rotating pauses at once, and is
  said to cancel any pending resume timer, to arm a timer on the mouse-up, and to resume
  only when that timer fires. The code clears only the timer whose handle is in
  \<open>interactionTimeout\<close>, and \<^verbatim>\<open>onMouseUp\<close> arms a new timer without clearing the one it
  replaces in that field. After three clicks on the canvas (timers 1, 2, 3) and the firing
  of timer 1, the animator is auto-rotating again; the next mouse-down clears timer 3 and
  leaves timer 2 pending; timer 2 fires during the drag and switches rotation on with the
  mouse still down; the mouse-up then arms no timer and the animator is in the
  auto-rotating state at once.
\<close>

theorem drag_with_stale_timer:
  "isAutoRotating
     (handleAll [MouseDown 0, MouseUp 0, MouseDown 0, MouseUp 0, MouseDown 0, MouseUp 0,
                 TimerFires 1]
        (CameraAnimator (Vector3 5 3 5) (Vector3 0 1 0) (Vector3 0 1 0) False))
   \<and> timers
     (handleAll [MouseDown 0, MouseUp 0, MouseDown 0, MouseUp 0, MouseDown 0, MouseUp 0,
                 TimerFires 1, MouseDown 0]
        (CameraAnimator (Vector3 5 3 5) (Vector3 0 1 0) (Vector3 0 1 0) False))
       = [(2, MouseUpResume, 3000)]
   \<and> isAutoRotating
     (handleAll [MouseDown 0, MouseUp 0, MouseDown 0, MouseUp 0, MouseDown 0, MouseUp 0,
                 TimerFires 1, MouseDown 0, TimerFires 2]
        (CameraAnimator (Vector3 5 3 5) (Vector3 0 1 0) (Vector3 0 1 0) False))
   \<and> isMouseDown
     (handleAll [MouseDown 0, MouseUp 0, MouseDown 0, MouseUp 0, MouseDown 0, MouseUp 0,
                 TimerFires 1, MouseDown 0, TimerFires 2]
        (CameraAnimator (Vector3 5 3 5) (Vector3 0 1 0) (Vector3 0 1 0) False))
   \<and> timers
     (handleAll [MouseDown 0, MouseUp 0, MouseDown 0, MouseUp 0, MouseDown 0, MouseUp 0,
                 TimerFires 1, MouseDown 0, TimerFires 2, MouseUp 0]
        (CameraAnimator (Vector3 5 3 5) (Vector3 0 1 0) (Vector3 0 1 0) False))
       = []
   \<and> autoRotatingState
     (handleAll [MouseDown 0, MouseUp 0, MouseDown 0, MouseUp 0, MouseDown 0, MouseUp 0,
                 TimerFires 1, MouseDown 0, TimerFires 2, MouseUp 0]
        (CameraAnimator (Vector3 5 3 5) (Vector3 0 1 0) (Vector3 0 1 0) False))"
  by (simp add: CameraAnimator_def handler_defs autoRotatingState_def)

text \<open>
  Claim C9. The manual toggle is said to cancel any pending resume timer and, once it has
  switched rotation off, to keep it off until the next manual toggle. After the same
  three clicks and the firing of timer 1, a click on the toggle button switches rotation
  off and clears timer 3, but timer 2 stays pending; when it fires, rotation is on again
  with no manual toggle in between.
\<close>

theorem toggle_off_with_stale_timer:
  "\<not> isAutoRotating
     (handleAll [MouseDown 0, MouseUp 0, MouseDown 0, MouseUp 0, MouseDown 0, MouseUp 0,
                 TimerFires 1, ToggleClick]
        (CameraAnimator (Vector3 5 3 5) (Vector3 0 1 0) (Vector3 0 1 0) False))
   \<and> timers
     (handleAll [MouseDown 0, MouseUp 0, MouseDown 0, MouseUp 0, MouseDown 0, MouseUp 0,
                 TimerFires 1, ToggleClick]
        (CameraAnimator (Vector3 5 3 5) (Vector3 0 1 0) (Vector3 0 1 0) False))
       = [(2, MouseUpResume, 3000)]
   \<and> isAutoRotating
     (handleAll [MouseDown 0, MouseUp 0, MouseDown 0, MouseUp 0, MouseDown 0, MouseUp 0,
                 TimerFires 1, ToggleClick, TimerFires 2]
        (CameraAnimator (Vector3 5 3 5) (Vector3 0 1 0) (Vector3 0 1 0) False))"
  by (simp add: CameraAnimator_def handler_defs)

subsection \<open>Rounding to doubles at given numbers\<close>

lemma floor_log2_binade:
  fixes x :: real
  assumes "2 ^ k \<le> \<bar>x\<bar>" and "\<bar>x\<bar> < 2 ^ Suc k"
  shows "\<lfloor>log 2 \<bar>x\<bar>\<rfloor> = int k"
proof -
  have pos: "0 < \<bar>x\<bar>"
    using assms(1) zero_less_power [of "2::real" k] by linarith
  have lo: "real k \<le> log 2 \<bar>x\<bar>"
    using assms(1) pos by (simp add: le_log_iff powr_realpow)
  have hi: "log 2 \<bar>x\<bar> < real k + 1"
    using assms(2) pos by (simp add: log_less_iff powr_add powr_realpow)
  show ?thesis
    using lo hi by (simp add: floor_eq_iff)
qed

lemma binary64_binade:
  fixes x :: real
  assumes "2 ^ k \<le> \<bar>x\<bar>" and "\<bar>x\<bar> < 2 ^ Suc k" and "k \<le> 52"
  shows "binary64 x = of_int (roundTiesToEven (x * 2 ^ (52 - k))) / 2 ^ (52 - k)"
proof -
  have "(0::real) < 2 ^ k"
    by simp
  with assms(1) have "0 < \<bar>x\<bar>"
    by linarith
  then have nz: "x \<noteq> 0"
    by simp
  have e: "\<lfloor>log 2 \<bar>x\<bar>\<rfloor> = int k"
    by (rule floor_log2_binade [OF assms(1,2)])
  have "(2::real) powr (real k - 52) = 2 powr (- real (52 - k))"
    using assms(3) by (simp add: of_nat_diff)
  also have "\<dots> = 1 / 2 ^ (52 - k)"
    by (simp add: powr_minus powr_realpow divide_inverse)
  finally have u: "(2::real) powr (real k - 52) = 1 / 2 ^ (52 - k)" .
  show ?thesis
    using nz by (simp add: binary64_def Let_def e u)
qed

subsection \<open>Camera reset\<close>

text \<open>No handler writes the target or the stored initial values.\<close>

lemma controlsUpdate_constants:
  "target (controlsUpdate ctl s) = target s"
  "initialAngle (controlsUpdate ctl s) = initialAngle s"
  "initialRadius (controlsUpdate ctl s) = initialRadius s"
  "initialHeight (controlsUpdate ctl s) = initialHeight s"
  "initialPosition (controlsUpdate ctl s) = initialPosition s"
  by (cases ctl;
      simp add: controlsUpdate_def onUserInteractionChange_def clearInteractionTimeout_def
        clearTimeout_def updateCurrentAngle_def Let_def split: option.splits)+

lemma update_constants:
  "target (update dt now ctl s) = target s"
  "initialAngle (update dt now ctl s) = initialAngle s"
  "initialRadius (update dt now ctl s) = initialRadius s"
  "initialHeight (update dt now ctl s) = initialHeight s"
  "initialPosition (update dt now ctl s) = initialPosition s"
  by (cases "autoRotatingState s";
      simp add: update_auto update_manual controlsUpdate_constants)+

lemma runCallback_constants:
  "target (runCallback cb s) = target s"
  "initialAngle (runCallback cb s) = initialAngle s"
  "initialRadius (runCallback cb s) = initialRadius s"
  "initialHeight (runCallback cb s) = initialHeight s"
  "initialPosition (runCallback cb s) = initialPosition s"
  by (cases cb; simp add: updateCurrentAngle_def Let_def)+

lemma handle_constants:
  "target (handle e s) = target s"
  "initialAngle (handle e s) = initialAngle s"
  "initialRadius (handle e s) = initialRadius s"
  "initialHeight (handle e s) = initialHeight s"
  "initialPosition (handle e s) = initialPosition s"
  by (cases e; simp add: update_constants;
      simp add: handler_defs runCallback_constants split: option.splits prod.splits)+

lemma handleAll_constants:
  "target (handleAll es s) = target s"
  "initialAngle (handleAll es s) = initialAngle s"
  "initialRadius (handleAll es s) = initialRadius s"
  "initialHeight (handleAll es s) = initialHeight s"
  "initialPosition (handleAll es s) = initialPosition s"
  by (induction es arbitrary: s; simp add: handle_constants)+

lemma animate_running:
  assumes "e < duration"
  shows "animate fl sp tp oc e s =
     (True, lookAt (target s)
              (s\<lparr>cameraPosition := lerpVectors fl sp tp (1 - (1 - e / duration) ^ 3)\<rparr>))"
  using assms by (simp add: animate_def Let_def duration_def)

lemma animate_done:
  assumes "duration \<le> e"
  shows "animate fl sp tp (Some f) e s =
     (False, f (lookAt (target s) (s\<lparr>cameraPosition := lerpVectors fl sp tp 1\<rparr>)))"
  using assms by (simp add: animate_def Let_def duration_def)

lemma lerpVectors_exact:
  assumes "\<forall>x. fl x = x"
  shows "lerpVectors fl a b 1 = b"
  using assms by (cases b) (simp add: lerpVectors_def)

lemma resetComplete_None:
  "controlsTarget (resetComplete None s) = target s"
  "cameraPosition (resetComplete None s) = cameraPosition s"
  "cameraLookAt (resetComplete None s) = cameraLookAt s"
  "target (resetComplete None s) = target s"
  "currentAngle (resetComplete None s) = initialAngle s"
  "radius (resetComplete None s) = initialRadius s"
  "height (resetComplete None s) = initialHeight s"
  by (simp_all add: resetComplete_def controlsUpdate_def)

lemma resetComplete_Some:
  "controlsTarget (resetComplete (Some p) s) = target s"
  "cameraPosition (resetComplete (Some p) s) = p"
  "userInteracting (resetComplete (Some p) s) = userInteracting s"
  "\<not> userInteracting s \<Longrightarrow> currentAngle (resetComplete (Some p) s) = initialAngle s"
  "\<not> userInteracting s \<Longrightarrow> radius (resetComplete (Some p) s) = initialRadius s"
  "\<not> userInteracting s \<Longrightarrow> height (resetComplete (Some p) s) = initialHeight s"
  "userInteracting s \<Longrightarrow> currentAngle (resetComplete (Some p) s)
      = atan2 (vz p - vz (target s)) (vx p - vx (target s))"
  "userInteracting s \<Longrightarrow> radius (resetComplete (Some p) s)
      = sqrt ((vx p - vx (target s)) * (vx p - vx (target s))
              + (vz p - vz (target s)) * (vz p - vz (target s)))"
  "userInteracting s \<Longrightarrow> height (resetComplete (Some p) s) = vy p"
  by (simp_all add: resetComplete_def controlsUpdate_def onUserInteractionChange_def
      clearInteractionTimeout_def clearTimeout_def updateCurrentAngle_def Let_def
      split: option.splits)

lemma animateFrames_reset:
  assumes "animateFrames fl sp tp (Some (resetComplete ctl)) fs s = (running, s')"
  shows "(running \<longleftrightarrow> (\<forall>t\<in>set (map snd fs). t < duration))
       \<and> (running \<and> fs \<noteq> [] \<longrightarrow>
            cameraPosition s' = lerpVectors fl sp tp (1 - (1 - last (map snd fs) / duration) ^ 3)
            \<and> facingTarget s')
       \<and> (\<not> running \<longrightarrow>
            controlsTarget s' = target s
            \<and> (ctl = None \<longrightarrow>
                 cameraPosition s' = lerpVectors fl sp tp 1 \<and> facingTarget s'
                 \<and> currentAngle s' = initialAngle s \<and> radius s' = initialRadius s
                 \<and> height s' = initialHeight s)
            \<and> (\<forall>p. ctl = Some p \<longrightarrow>
                 cameraPosition s' = p
                 \<and> (\<not> userInteracting s' \<longrightarrow>
                      currentAngle s' = initialAngle s \<and> radius s' = initialRadius s
                      \<and> height s' = initialHeight s)
                 \<and> (userInteracting s' \<longrightarrow>
                      currentAngle s' = atan2 (vz p - vz (target s)) (vx p - vx (target s))
                      \<and> radius s' = sqrt ((vx p - vx (target s)) * (vx p - vx (target s))
                                           + (vz p - vz (target s)) * (vz p - vz (target s)))
                      \<and> height s' = vy p)))"
  using assms
proof (induction fs arbitrary: s)
  case Nil
  then show ?case by simp
next
  case (Cons f fs)
  obtain events e where f: "f = (events, e)"
    by (cases f)
  let ?s0 = "handleAll events s"
  note const = handleAll_constants [of events s]
  show ?case
  proof (cases "e < duration")
    case True
    let ?s1 = "lookAt (target ?s0)
                 (?s0\<lparr>cameraPosition := lerpVectors fl sp tp (1 - (1 - e / duration) ^ 3)\<rparr>)"
    have step: "animateFrames fl sp tp (Some (resetComplete ctl)) fs ?s1 = (running, s')"
      using Cons.prems True by (simp add: f animate_running)
    have keep: "target ?s1 = target s" "initialAngle ?s1 = initialAngle s"
      "initialRadius ?s1 = initialRadius s" "initialHeight ?s1 = initialHeight s"
      by (simp_all add: lookAt_def const)
    show ?thesis
    proof (cases "fs = []")
      case True
      then show ?thesis
        using step \<open>e < duration\<close> by (auto simp add: f lookAt_def facingTarget_def)
    next
      case False
      then show ?thesis
        using Cons.IH [OF step] \<open>e < duration\<close> by (simp add: f keep)
    qed
  next
    case False
    then have late: "duration \<le> e" by simp
    let ?s1 = "lookAt (target ?s0) (?s0\<lparr>cameraPosition := lerpVectors fl sp tp 1\<rparr>)"
    have res: "running = False" "s' = resetComplete ctl ?s1"
      using Cons.prems late by (simp_all add: f animate_done)
    have s1: "target ?s1 = target s" "initialAngle ?s1 = initialAngle s"
      "initialRadius ?s1 = initialRadius s" "initialHeight ?s1 = initialHeight s"
      "cameraPosition ?s1 = lerpVectors fl sp tp 1"
      "cameraLookAt ?s1 = Some (lerpVectors fl sp tp 1, target s)"
      by (simp_all add: lookAt_def const)
    show ?thesis
    proof (cases ctl)
      case None
      then show ?thesis
        using False
        by (simp add: res f resetComplete_None facingTarget_def s1)
    next
      case (Some p)
      then show ?thesis
        using False
        by (simp add: res f resetComplete_Some s1)
    qed
  qed
qed

text \<open>
  Claim C8, as amended. \<^verbatim>\<open>resetCamera\<close> moves the camera from the position it has at the
  call towards the stored initial position, whatever events the animator handles between
  the frames of the animation: at a frame with elapsed time below the fixed duration of
  1000 ms the camera is put at the interpolation with weight \<open>1 - (1 - progress) ^ 3\<close>,
  facing the target, and another frame is asked for; the first frame at or after 1000 ms
  ends the animation. At that frame the camera is put at the interpolation with weight 1,
  which is the initial position when the arithmetic is exact, the controls are pointed at
  the target, and \<open>currentAngle\<close>, \<open>radius\<close> and \<open>height\<close> get their stored initial values.
  The callback ends with the library call \<^verbatim>\<open>controls.update()\<close>. When that call leaves the
  camera alone, all of this is the final state. When it moves the camera to \<open>p\<close> and
  dispatches \<^verbatim>\<open>change\<close>, the camera is at \<open>p\<close>; the bookkeeping keeps the initial values if
  no user interaction is in progress, and otherwise the change handler recomputes angle,
  radius and height from \<open>p\<close>.
\<close>

theorem resetCamera_animation:
  assumes "resetCamera fl ctl e fs s = (running, s')"
  shows "(running \<longleftrightarrow> (\<forall>t\<in>set (e # map snd fs). t < duration))
       \<and> (running \<longrightarrow>
            cameraPosition s'
              = lerpVectors fl (cameraPosition s) (initialPosition s)
                  (1 - (1 - last (e # map snd fs) / duration) ^ 3)
            \<and> facingTarget s')
       \<and> (\<not> running \<longrightarrow>
            controlsTarget s' = target s
            \<and> (ctl = None \<longrightarrow>
                 cameraPosition s' = lerpVectors fl (cameraPosition s) (initialPosition s) 1
                 \<and> facingTarget s'
                 \<and> currentAngle s' = initialAngle s \<and> radius s' = initialRadius s
                 \<and> height s' = initialHeight s)
            \<and> (\<forall>p. ctl = Some p \<longrightarrow>
                 cameraPosition s' = p
                 \<and> (\<not> userInteracting s' \<longrightarrow>
                      currentAngle s' = initialAngle s \<and> radius s' = initialRadius s
                      \<and> height s' = initialHeight s)
                 \<and> (userInteracting s' \<longrightarrow>
                      currentAngle s' = atan2 (vz p - vz (target s)) (vx p - vx (target s))
                      \<and> radius s' = sqrt ((vx p - vx (target s)) * (vx p - vx (target s))
                                           + (vz p - vz (target s)) * (vz p - vz (target s)))
                      \<and> height s' = vy p)))
       \<and> ((\<forall>x. fl x = x) \<longrightarrow>
            lerpVectors fl (cameraPosition s) (initialPosition s) 1 = initialPosition s)"
proof -
  have run: "animateFrames fl (cameraPosition s) (initialPosition s) (Some (resetComplete ctl))
      (([], e) # fs) s = (running, s')"
    using assms by (simp add: resetCamera_def animateToPosition_def)
  have exact: "(\<forall>x. fl x = x) \<longrightarrow>
      lerpVectors fl (cameraPosition s) (initialPosition s) 1 = initialPosition s"
    by (simp add: lerpVectors_exact)
  show ?thesis
    using animateFrames_reset [OF run] exact by simp
qed

theorem resetCamera_animation_witness:
  "\<not> fst (resetCamera id None 0 [([Frame 16 0 None], 500), ([Frame 16 16 None], 1000)] ((CameraAnimator (Vector3 5 3 5) (Vector3 0 1 0) (Vector3 0 1 0) True)\<lparr>cameraPosition := Vector3 1 2 3\<rparr>))
   \<and> cameraPosition (snd (resetCamera id None 0 [([Frame 16 0 None], 500), ([Frame 16 16 None], 1000)] ((CameraAnimator (Vector3 5 3 5) (Vector3 0 1 0) (Vector3 0 1 0) True)\<lparr>cameraPosition := Vector3 1 2 3\<rparr>))) = Vector3 5 3 5
   \<and> facingTarget (snd (resetCamera id None 0 [([Frame 16 0 None], 500), ([Frame 16 16 None], 1000)] ((CameraAnimator (Vector3 5 3 5) (Vector3 0 1 0) (Vector3 0 1 0) True)\<lparr>cameraPosition := Vector3 1 2 3\<rparr>)))
   \<and> currentAngle (snd (resetCamera id None 0 [([Frame 16 0 None], 500), ([Frame 16 16 None], 1000)] ((CameraAnimator (Vector3 5 3 5) (Vector3 0 1 0) (Vector3 0 1 0) True)\<lparr>cameraPosition := Vector3 1 2 3\<rparr>))) = initialAngle ((CameraAnimator (Vector3 5 3 5) (Vector3 0 1 0) (Vector3 0 1 0) True)\<lparr>cameraPosition := Vector3 1 2 3\<rparr>)
   \<and> radius (snd (resetCamera id None 0 [([Frame 16 0 None], 500), ([Frame 16 16 None], 1000)] ((CameraAnimator (Vector3 5 3 5) (Vector3 0 1 0) (Vector3 0 1 0) True)\<lparr>cameraPosition := Vector3 1 2 3\<rparr>))) = initialRadius ((CameraAnimator (Vector3 5 3 5) (Vector3 0 1 0) (Vector3 0 1 0) True)\<lparr>cameraPosition := Vector3 1 2 3\<rparr>)
   \<and> height (snd (resetCamera id None 0 [([Frame 16 0 None], 500), ([Frame 16 16 None], 1000)] ((CameraAnimator (Vector3 5 3 5) (Vector3 0 1 0) (Vector3 0 1 0) True)\<lparr>cameraPosition := Vector3 1 2 3\<rparr>))) = 3
   \<and> controlsTarget (snd (resetCamera id None 0 [([Frame 16 0 None], 500), ([Frame 16 16 None], 1000)] ((CameraAnimator (Vector3 5 3 5) (Vector3 0 1 0) (Vector3 0 1 0) True)\<lparr>cameraPosition := Vector3 1 2 3\<rparr>))) = Vector3 0 1 0
   \<and> fst (resetCamera id None 0 [([Frame 16 0 None], 500)] ((CameraAnimator (Vector3 5 3 5) (Vector3 0 1 0) (Vector3 0 1 0) True)\<lparr>cameraPosition := Vector3 1 2 3\<rparr>))
   \<and> cameraPosition (snd (resetCamera id None 0 [([Frame 16 0 None], 500)] ((CameraAnimator (Vector3 5 3 5) (Vector3 0 1 0) (Vector3 0 1 0) True)\<lparr>cameraPosition := Vector3 1 2 3\<rparr>)))
       = lerpVectors id (Vector3 1 2 3) (Vector3 5 3 5) (1 - (1 - 500 / duration) ^ 3)
   \<and> userInteracting (snd (resetCamera id (Some (Vector3 5 3 5)) 0 [([Frame 16 0 None], 1000)] (onMouseDown 0 (CameraAnimator (Vector3 5 3 5) (Vector3 0 1 0) (Vector3 0 1 0) True))))
   \<and> cameraPosition (snd (resetCamera id (Some (Vector3 5 3 5)) 0 [([Frame 16 0 None], 1000)] (onMouseDown 0 (CameraAnimator (Vector3 5 3 5) (Vector3 0 1 0) (Vector3 0 1 0) True)))) = Vector3 5 3 5
   \<and> radius (snd (resetCamera id (Some (Vector3 5 3 5)) 0 [([Frame 16 0 None], 1000)] (onMouseDown 0 (CameraAnimator (Vector3 5 3 5) (Vector3 0 1 0) (Vector3 0 1 0) True)))) = sqrt (5 * 5 + 5 * 5)
   \<and> \<not> userInteracting (snd (resetCamera id (Some (Vector3 5 3 5)) 0 [([Frame 16 0 None], 1000)] ((CameraAnimator (Vector3 5 3 5) (Vector3 0 1 0) (Vector3 0 1 0) True)\<lparr>cameraPosition := Vector3 1 2 3\<rparr>)))
   \<and> radius (snd (resetCamera id (Some (Vector3 5 3 5)) 0 [([Frame 16 0 None], 1000)] ((CameraAnimator (Vector3 5 3 5) (Vector3 0 1 0) (Vector3 0 1 0) True)\<lparr>cameraPosition := Vector3 1 2 3\<rparr>))) = initialRadius ((CameraAnimator (Vector3 5 3 5) (Vector3 0 1 0) (Vector3 0 1 0) True)\<lparr>cameraPosition := Vector3 1 2 3\<rparr>)"
proof -
  have fields: "initialPosition ((CameraAnimator (Vector3 5 3 5) (Vector3 0 1 0) (Vector3 0 1 0) True)\<lparr>cameraPosition := Vector3 1 2 3\<rparr>) = Vector3 5 3 5" "initialHeight ((CameraAnimator (Vector3 5 3 5) (Vector3 0 1 0) (Vector3 0 1 0) True)\<lparr>cameraPosition := Vector3 1 2 3\<rparr>) = 3"
    "target ((CameraAnimator (Vector3 5 3 5) (Vector3 0 1 0) (Vector3 0 1 0) True)\<lparr>cameraPosition := Vector3 1 2 3\<rparr>) = Vector3 0 1 0" "cameraPosition ((CameraAnimator (Vector3 5 3 5) (Vector3 0 1 0) (Vector3 0 1 0) True)\<lparr>cameraPosition := Vector3 1 2 3\<rparr>) = Vector3 1 2 3"
    "target (onMouseDown 0 (CameraAnimator (Vector3 5 3 5) (Vector3 0 1 0) (Vector3 0 1 0) True)) = Vector3 0 1 0"
    by (simp_all add: CameraAnimator_def onMouseDown_def clearInteractionTimeout_def Let_def)
  have flags: "userInteracting (snd (resetCamera id (Some (Vector3 5 3 5)) 0 [([Frame 16 0 None], 1000)] (onMouseDown 0 (CameraAnimator (Vector3 5 3 5) (Vector3 0 1 0) (Vector3 0 1 0) True))))" "\<not> fst (resetCamera id (Some (Vector3 5 3 5)) 0 [([Frame 16 0 None], 1000)] (onMouseDown 0 (CameraAnimator (Vector3 5 3 5) (Vector3 0 1 0) (Vector3 0 1 0) True)))" "\<not> userInteracting (snd (resetCamera id (Some (Vector3 5 3 5)) 0 [([Frame 16 0 None], 1000)] ((CameraAnimator (Vector3 5 3 5) (Vector3 0 1 0) (Vector3 0 1 0) True)\<lparr>cameraPosition := Vector3 1 2 3\<rparr>)))" "\<not> fst (resetCamera id (Some (Vector3 5 3 5)) 0 [([Frame 16 0 None], 1000)] ((CameraAnimator (Vector3 5 3 5) (Vector3 0 1 0) (Vector3 0 1 0) True)\<lparr>cameraPosition := Vector3 1 2 3\<rparr>))"
    by (simp_all add: resetCamera_def animateToPosition_def animate_def duration_def
        resetComplete_def controlsUpdate_def lookAt_def handler_defs CameraAnimator_def
        update_def)
  have e1: "(resetCamera id None 0 [([Frame 16 0 None], 500), ([Frame 16 16 None], 1000)] ((CameraAnimator (Vector3 5 3 5) (Vector3 0 1 0) (Vector3 0 1 0) True)\<lparr>cameraPosition := Vector3 1 2 3\<rparr>)) = (fst (resetCamera id None 0 [([Frame 16 0 None], 500), ([Frame 16 16 None], 1000)] ((CameraAnimator (Vector3 5 3 5) (Vector3 0 1 0) (Vector3 0 1 0) True)\<lparr>cameraPosition := Vector3 1 2 3\<rparr>)), snd (resetCamera id None 0 [([Frame 16 0 None], 500), ([Frame 16 16 None], 1000)] ((CameraAnimator (Vector3 5 3 5) (Vector3 0 1 0) (Vector3 0 1 0) True)\<lparr>cameraPosition := Vector3 1 2 3\<rparr>)))" and e2: "(resetCamera id None 0 [([Frame 16 0 None], 500)] ((CameraAnimator (Vector3 5 3 5) (Vector3 0 1 0) (Vector3 0 1 0) True)\<lparr>cameraPosition := Vector3 1 2 3\<rparr>)) = (fst (resetCamera id None 0 [([Frame 16 0 None], 500)] ((CameraAnimator (Vector3 5 3 5) (Vector3 0 1 0) (Vector3 0 1 0) True)\<lparr>cameraPosition := Vector3 1 2 3\<rparr>)), snd (resetCamera id None 0 [([Frame 16 0 None], 500)] ((CameraAnimator (Vector3 5 3 5) (Vector3 0 1 0) (Vector3 0 1 0) True)\<lparr>cameraPosition := Vector3 1 2 3\<rparr>)))"
    and e3: "(resetCamera id (Some (Vector3 5 3 5)) 0 [([Frame 16 0 None], 1000)] (onMouseDown 0 (CameraAnimator (Vector3 5 3 5) (Vector3 0 1 0) (Vector3 0 1 0) True))) = (fst (resetCamera id (Some (Vector3 5 3 5)) 0 [([Frame 16 0 None], 1000)] (onMouseDown 0 (CameraAnimator (Vector3 5 3 5) (Vector3 0 1 0) (Vector3 0 1 0) True))), snd (resetCamera id (Some (Vector3 5 3 5)) 0 [([Frame 16 0 None], 1000)] (onMouseDown 0 (CameraAnimator (Vector3 5 3 5) (Vector3 0 1 0) (Vector3 0 1 0) True))))" and e4: "(resetCamera id (Some (Vector3 5 3 5)) 0 [([Frame 16 0 None], 1000)] ((CameraAnimator (Vector3 5 3 5) (Vector3 0 1 0) (Vector3 0 1 0) True)\<lparr>cameraPosition := Vector3 1 2 3\<rparr>)) = (fst (resetCamera id (Some (Vector3 5 3 5)) 0 [([Frame 16 0 None], 1000)] ((CameraAnimator (Vector3 5 3 5) (Vector3 0 1 0) (Vector3 0 1 0) True)\<lparr>cameraPosition := Vector3 1 2 3\<rparr>)), snd (resetCamera id (Some (Vector3 5 3 5)) 0 [([Frame 16 0 None], 1000)] ((CameraAnimator (Vector3 5 3 5) (Vector3 0 1 0) (Vector3 0 1 0) True)\<lparr>cameraPosition := Vector3 1 2 3\<rparr>)))"
    by simp_all
  have land: "lerpVectors id (Vector3 1 2 3) (Vector3 5 3 5) 1 = Vector3 5 3 5"
    by (simp add: lerpVectors_def)
  have c1: "\<not> fst (resetCamera id None 0 [([Frame 16 0 None], 500), ([Frame 16 16 None], 1000)] ((CameraAnimator (Vector3 5 3 5) (Vector3 0 1 0) (Vector3 0 1 0) True)\<lparr>cameraPosition := Vector3 1 2 3\<rparr>)) \<and> cameraPosition (snd (resetCamera id None 0 [([Frame 16 0 None], 500), ([Frame 16 16 None], 1000)] ((CameraAnimator (Vector3 5 3 5) (Vector3 0 1 0) (Vector3 0 1 0) True)\<lparr>cameraPosition := Vector3 1 2 3\<rparr>))) = Vector3 5 3 5 \<and> facingTarget (snd (resetCamera id None 0 [([Frame 16 0 None], 500), ([Frame 16 16 None], 1000)] ((CameraAnimator (Vector3 5 3 5) (Vector3 0 1 0) (Vector3 0 1 0) True)\<lparr>cameraPosition := Vector3 1 2 3\<rparr>)))
      \<and> currentAngle (snd (resetCamera id None 0 [([Frame 16 0 None], 500), ([Frame 16 16 None], 1000)] ((CameraAnimator (Vector3 5 3 5) (Vector3 0 1 0) (Vector3 0 1 0) True)\<lparr>cameraPosition := Vector3 1 2 3\<rparr>))) = initialAngle ((CameraAnimator (Vector3 5 3 5) (Vector3 0 1 0) (Vector3 0 1 0) True)\<lparr>cameraPosition := Vector3 1 2 3\<rparr>) \<and> radius (snd (resetCamera id None 0 [([Frame 16 0 None], 500), ([Frame 16 16 None], 1000)] ((CameraAnimator (Vector3 5 3 5) (Vector3 0 1 0) (Vector3 0 1 0) True)\<lparr>cameraPosition := Vector3 1 2 3\<rparr>))) = initialRadius ((CameraAnimator (Vector3 5 3 5) (Vector3 0 1 0) (Vector3 0 1 0) True)\<lparr>cameraPosition := Vector3 1 2 3\<rparr>)
      \<and> height (snd (resetCamera id None 0 [([Frame 16 0 None], 500), ([Frame 16 16 None], 1000)] ((CameraAnimator (Vector3 5 3 5) (Vector3 0 1 0) (Vector3 0 1 0) True)\<lparr>cameraPosition := Vector3 1 2 3\<rparr>))) = 3 \<and> controlsTarget (snd (resetCamera id None 0 [([Frame 16 0 None], 500), ([Frame 16 16 None], 1000)] ((CameraAnimator (Vector3 5 3 5) (Vector3 0 1 0) (Vector3 0 1 0) True)\<lparr>cameraPosition := Vector3 1 2 3\<rparr>))) = Vector3 0 1 0"
    using resetCamera_animation [OF e1]
    by (simp add: duration_def fields land)
  have c2: "fst (resetCamera id None 0 [([Frame 16 0 None], 500)] ((CameraAnimator (Vector3 5 3 5) (Vector3 0 1 0) (Vector3 0 1 0) True)\<lparr>cameraPosition := Vector3 1 2 3\<rparr>)) \<and> cameraPosition (snd (resetCamera id None 0 [([Frame 16 0 None], 500)] ((CameraAnimator (Vector3 5 3 5) (Vector3 0 1 0) (Vector3 0 1 0) True)\<lparr>cameraPosition := Vector3 1 2 3\<rparr>)))
       = lerpVectors id (Vector3 1 2 3) (Vector3 5 3 5) (1 - (1 - 500 / duration) ^ 3)"
    using resetCamera_animation [OF e2]
    by (simp add: duration_def fields)
  have c3: "cameraPosition (snd (resetCamera id (Some (Vector3 5 3 5)) 0 [([Frame 16 0 None], 1000)] (onMouseDown 0 (CameraAnimator (Vector3 5 3 5) (Vector3 0 1 0) (Vector3 0 1 0) True)))) = Vector3 5 3 5 \<and> radius (snd (resetCamera id (Some (Vector3 5 3 5)) 0 [([Frame 16 0 None], 1000)] (onMouseDown 0 (CameraAnimator (Vector3 5 3 5) (Vector3 0 1 0) (Vector3 0 1 0) True)))) = sqrt (5 * 5 + 5 * 5)"
    using resetCamera_animation [OF e3]
      flags(1,2)
    by (simp add: duration_def fields)
  have c4: "radius (snd (resetCamera id (Some (Vector3 5 3 5)) 0 [([Frame 16 0 None], 1000)] ((CameraAnimator (Vector3 5 3 5) (Vector3 0 1 0) (Vector3 0 1 0) True)\<lparr>cameraPosition := Vector3 1 2 3\<rparr>))) = initialRadius ((CameraAnimator (Vector3 5 3 5) (Vector3 0 1 0) (Vector3 0 1 0) True)\<lparr>cameraPosition := Vector3 1 2 3\<rparr>)"
    using resetCamera_animation [OF e4]
      flags(3,4)
    by (simp add: duration_def fields)
  show ?thesis
    using c1 c2 c3 c4 flags by simp
qed

text \<open>
  The claim as first stated fails in two ways. When the animation ends while a user
  interaction is in progress (here after a mouse-down on the canvas, with one render
  frame between the two frames of the animation) and the closing
  \<^verbatim>\<open>controls.update()\<close> dispatches \<^verbatim>\<open>change\<close> with the camera at the initial position
  \<open>(5, 3, 5)\<close>, the change handler recomputes the bookkeeping and \<open>radius\<close> is the planar
  distance \<open>sqrt 50\<close>, not the stored initial radius \<open>sqrt 54\<close>. And in the doubles of the
  program the interpolation with weight 1 does not always land on the initial position:
  from a camera at \<open>x = - 4 - 1 / 2 ^ 50\<close> towards \<open>x = 5\<close> the difference rounds to 9 and
  the sum is \<open>5 - 1 / 2 ^ 50\<close>.
\<close>

theorem resetCamera_claim_counterexample:
  "\<not> fst (resetCamera binary64 (Some (Vector3 5 3 5)) 0 [([Frame 16 0 None], 1000)] (onMouseDown 0 (CameraAnimator (Vector3 5 3 5) (Vector3 0 1 0) (Vector3 0 1 0) True)))
   \<and> radius (snd (resetCamera binary64 (Some (Vector3 5 3 5)) 0 [([Frame 16 0 None], 1000)] (onMouseDown 0 (CameraAnimator (Vector3 5 3 5) (Vector3 0 1 0) (Vector3 0 1 0) True)))) \<noteq> initialRadius (onMouseDown 0 (CameraAnimator (Vector3 5 3 5) (Vector3 0 1 0) (Vector3 0 1 0) True))
   \<and> \<not> fst (resetCamera binary64 None 0 [([Frame 16 0 None], 1000)] ((CameraAnimator (Vector3 5 3 5) (Vector3 0 1 0) (Vector3 0 1 0) True)\<lparr>cameraPosition := Vector3 (- 4 - 1 / 2 ^ 50) 3 5\<rparr>))
   \<and> cameraPosition (snd (resetCamera binary64 None 0 [([Frame 16 0 None], 1000)] ((CameraAnimator (Vector3 5 3 5) (Vector3 0 1 0) (Vector3 0 1 0) True)\<lparr>cameraPosition := Vector3 (- 4 - 1 / 2 ^ 50) 3 5\<rparr>))) \<noteq> initialPosition ((CameraAnimator (Vector3 5 3 5) (Vector3 0 1 0) (Vector3 0 1 0) True)\<lparr>cameraPosition := Vector3 (- 4 - 1 / 2 ^ 50) 3 5\<rparr>)"
proof -
  have a: "\<not> fst (resetCamera binary64 (Some (Vector3 5 3 5)) 0 [([Frame 16 0 None], 1000)] (onMouseDown 0 (CameraAnimator (Vector3 5 3 5) (Vector3 0 1 0) (Vector3 0 1 0) True)))" "radius (snd (resetCamera binary64 (Some (Vector3 5 3 5)) 0 [([Frame 16 0 None], 1000)] (onMouseDown 0 (CameraAnimator (Vector3 5 3 5) (Vector3 0 1 0) (Vector3 0 1 0) True)))) = sqrt (5 * 5 + 5 * 5)" "initialRadius (onMouseDown 0 (CameraAnimator (Vector3 5 3 5) (Vector3 0 1 0) (Vector3 0 1 0) True)) = sqrt 54"
    by (simp_all add: resetCamera_def animateToPosition_def animate_def duration_def
        resetComplete_def controlsUpdate_def lookAt_def handler_defs CameraAnimator_def
        distanceTo_def update_def)
  have r1: "binary64 (9 + 1 / 2 ^ 50) = 9"
    using binary64_binade [of 3 "9 + 1 / 2 ^ 50"] by (simp add: roundTiesToEven_def Let_def)
  have r2: "binary64 9 = 9"
    using binary64_binade [of 3 9] by (simp add: roundTiesToEven_def Let_def)
  have r3: "binary64 (5 - 1 / 2 ^ 50) = 5 - 1 / 2 ^ 50"
    using binary64_binade [of 2 "5 - 1 / 2 ^ 50"] by (simp add: roundTiesToEven_def Let_def)
  have x: "binary64 (- 4 - 1 / 2 ^ 50 + binary64 (binary64 (5 - (- 4 - 1 / 2 ^ 50)) * 1))
      = 5 - 1 / 2 ^ 50"
  proof -
    have "(5::real) - (- 4 - 1 / 2 ^ 50) = 9 + 1 / 2 ^ 50"
      by simp
    moreover have "(- 4 - 1 / 2 ^ 50 + 9 :: real) = 5 - 1 / 2 ^ 50"
      by simp
    ultimately show ?thesis
      by (simp only: r1 r2 r3 mult_1_right)
  qed
  have b: "\<not> fst (resetCamera binary64 None 0 [([Frame 16 0 None], 1000)] ((CameraAnimator (Vector3 5 3 5) (Vector3 0 1 0) (Vector3 0 1 0) True)\<lparr>cameraPosition := Vector3 (- 4 - 1 / 2 ^ 50) 3 5\<rparr>))"
    "vx (cameraPosition (snd (resetCamera binary64 None 0 [([Frame 16 0 None], 1000)] ((CameraAnimator (Vector3 5 3 5) (Vector3 0 1 0) (Vector3 0 1 0) True)\<lparr>cameraPosition := Vector3 (- 4 - 1 / 2 ^ 50) 3 5\<rparr>))))
       = binary64 (- 4 - 1 / 2 ^ 50 + binary64 (binary64 (5 - (- 4 - 1 / 2 ^ 50)) * 1))"
    "initialPosition ((CameraAnimator (Vector3 5 3 5) (Vector3 0 1 0) (Vector3 0 1 0) True)\<lparr>cameraPosition := Vector3 (- 4 - 1 / 2 ^ 50) 3 5\<rparr>) = Vector3 5 3 5"
    by (simp_all add: resetCamera_def animateToPosition_def animate_def duration_def
        resetComplete_def controlsUpdate_def lookAt_def CameraAnimator_def lerpVectors_def
        update_def)
  have "vx (cameraPosition (snd (resetCamera binary64 None 0 [([Frame 16 0 None], 1000)] ((CameraAnimator (Vector3 5 3 5) (Vector3 0 1 0) (Vector3 0 1 0) True)\<lparr>cameraPosition := Vector3 (- 4 - 1 / 2 ^ 50) 3 5\<rparr>)))) \<noteq> vx (initialPosition ((CameraAnimator (Vector3 5 3 5) (Vector3 0 1 0) (Vector3 0 1 0) True)\<lparr>cameraPosition := Vector3 (- 4 - 1 / 2 ^ 50) 3 5\<rparr>))"
    unfolding b(2) x b(3) by simp
  then have "cameraPosition (snd (resetCamera binary64 None 0 [([Frame 16 0 None], 1000)] ((CameraAnimator (Vector3 5 3 5) (Vector3 0 1 0) (Vector3 0 1 0) True)\<lparr>cameraPosition := Vector3 (- 4 - 1 / 2 ^ 50) 3 5\<rparr>))) \<noteq> initialPosition ((CameraAnimator (Vector3 5 3 5) (Vector3 0 1 0) (Vector3 0 1 0) True)\<lparr>cameraPosition := Vector3 (- 4 - 1 / 2 ^ 50) 3 5\<rparr>)"
    by auto
  then show ?thesis
    using a b(1) by simp
qed

section \<open>Properties of the interaction manager\<close>

subsection \<open>What each operation writes\<close>

lemma setMesh_simps:
  "meshes (setMesh q m s) = (meshes s)(q := m)"
  "materialStore (setMesh q m s) = materialStore s"
  "materialNext (setMesh q m s) = materialNext s"
  "originalMaterials (setMesh q m s) = originalMaterials s"
  "hoveredObject (setMesh q m s) = hoveredObject s"
  "selectedObject (setMesh q m s) = selectedObject s"
  "productParts (setMesh q m s) = productParts s"
  "partInfoHidden (setMesh q m s) = partInfoHidden s"
  by (simp_all add: setMesh_def)

lemma restoreScale_simps:
  "material (restoreScale m) = material m"
  "originalScale (restoreScale m) = originalScale m"
  "hovering (restoreScale m) = hovering m"
  "pulsing (restoreScale m) = pulsing m"
  "pulseTime (restoreScale m) = pulseTime m"
  "hoverTime (restoreScale m) = hoverTime m"
  "scale (restoreScale m) = (case originalScale m of None \<Rightarrow> scale m | Some v \<Rightarrow> v)"
  by (simp_all add: restoreScale_def split: option.splits)

lemma rememberScale_simps:
  "material (rememberScale m) = material m"
  "scale (rememberScale m) = scale m"
  "hovering (rememberScale m) = hovering m"
  "pulsing (rememberScale m) = pulsing m"
  "pulseTime (rememberScale m) = pulseTime m"
  "hoverTime (rememberScale m) = hoverTime m"
  "originalScale (rememberScale m)
     = (case originalScale m of None \<Rightarrow> Some (scale m) | Some v \<Rightarrow> Some v)"
  by (simp_all add: rememberScale_def split: option.splits)

lemma clearHover_simps:
  "materialStore (clearHover s) = materialStore s"
  "materialNext (clearHover s) = materialNext s"
  "originalMaterials (clearHover s) = originalMaterials s"
  "selectedObject (clearHover s) = selectedObject s"
  "productParts (clearHover s) = productParts s"
  "partInfoHidden (clearHover s) = partInfoHidden s"
  "hoveredObject (clearHover s)
     = (if hoveredObject s \<noteq> selectedObject s then None else hoveredObject s)"
  "meshes (clearHover s) q
     = (if hoveredObject s = Some q \<and> selectedObject s \<noteq> Some q
        then (restoreScale ((meshes s q)\<lparr>material := originalMaterials s q\<rparr>))\<lparr>hovering := False\<rparr>
        else meshes s q)"
  by (auto simp add: clearHover_def setMesh_def split: option.splits)

lemma clearSelectionEffect_simps:
  "materialStore (clearSelectionEffect p s) = materialStore s"
  "materialNext (clearSelectionEffect p s) = materialNext s"
  "originalMaterials (clearSelectionEffect p s) = originalMaterials s"
  "selectedObject (clearSelectionEffect p s) = selectedObject s"
  "hoveredObject (clearSelectionEffect p s) = hoveredObject s"
  "productParts (clearSelectionEffect p s) = productParts s"
  "partInfoHidden (clearSelectionEffect p s) = partInfoHidden s"
  "meshes (clearSelectionEffect p s) q
     = (if q = p
        then (restoreScale ((meshes s p)\<lparr>material := originalMaterials s p\<rparr>))\<lparr>hovering := False\<rparr>
        else meshes s q)"
  by (simp_all add: clearSelectionEffect_def setMesh_def)

lemma removePulseAnimation_simps:
  "materialStore (removePulseAnimation p s) = materialStore s"
  "materialNext (removePulseAnimation p s) = materialNext s"
  "originalMaterials (removePulseAnimation p s) = originalMaterials s"
  "selectedObject (removePulseAnimation p s) = selectedObject s"
  "hoveredObject (removePulseAnimation p s) = hoveredObject s"
  "productParts (removePulseAnimation p s) = productParts s"
  "partInfoHidden (removePulseAnimation p s) = partInfoHidden s"
  "meshes (removePulseAnimation p s) q
     = (if q = p \<and> pulsing (meshes s p)
        then restoreScale ((meshes s p)\<lparr>pulsing := False\<rparr>)
        else meshes s q)"
  by (simp_all add: removePulseAnimation_def setMesh_def)

lemma addPulseAnimation_simps:
  "materialStore (addPulseAnimation p s) = materialStore s"
  "materialNext (addPulseAnimation p s) = materialNext s"
  "originalMaterials (addPulseAnimation p s) = originalMaterials s"
  "selectedObject (addPulseAnimation p s) = selectedObject s"
  "hoveredObject (addPulseAnimation p s) = hoveredObject s"
  "productParts (addPulseAnimation p s) = productParts s"
  "partInfoHidden (addPulseAnimation p s) = partInfoHidden s"
  "meshes (addPulseAnimation p s) q
     = (if q = p then (rememberScale (meshes s p))\<lparr>pulsing := True, pulseTime := 0\<rparr>
        else meshes s q)"
  by (simp_all add: addPulseAnimation_def setMesh_def)

lemma showPartInfo_simps:
  "materialStore (showPartInfo p s) = materialStore s"
  "materialNext (showPartInfo p s) = materialNext s"
  "originalMaterials (showPartInfo p s) = originalMaterials s"
  "selectedObject (showPartInfo p s) = selectedObject s"
  "hoveredObject (showPartInfo p s) = hoveredObject s"
  "productParts (showPartInfo p s) = productParts s"
  "meshes (showPartInfo p s) = meshes s"
  "partInfoHidden (showPartInfo p s) = False"
  by (simp_all add: showPartInfo_def)

lemma hidePartInfo_simps:
  "materialStore (hidePartInfo s) = materialStore s"
  "materialNext (hidePartInfo s) = materialNext s"
  "originalMaterials (hidePartInfo s) = originalMaterials s"
  "selectedObject (hidePartInfo s) = selectedObject s"
  "hoveredObject (hidePartInfo s) = hoveredObject s"
  "productParts (hidePartInfo s) = productParts s"
  "meshes (hidePartInfo s) = meshes s"
  "partInfoHidden (hidePartInfo s) = True"
  by (simp_all add: hidePartInfo_def)

lemma deselectObject_simps:
  "materialStore (deselectObject s) = materialStore s"
  "materialNext (deselectObject s) = materialNext s"
  "originalMaterials (deselectObject s) = originalMaterials s"
  "selectedObject (deselectObject s) = None"
  "hoveredObject (deselectObject s) = hoveredObject s"
  "productParts (deselectObject s) = productParts s"
  "partInfoHidden (deselectObject s) = True"
  "meshes (deselectObject s) q
     = (if selectedObject s = Some q
        then (restoreScale ((meshes s q)\<lparr>material := originalMaterials s q\<rparr>))
               \<lparr>hovering := False, pulsing := False\<rparr>
        else meshes s q)"
  by (auto simp add: deselectObject_def hidePartInfo_simps removePulseAnimation_simps
      clearSelectionEffect_simps restoreScale_def split: option.splits)

text \<open>The two tinting operations, when the part has a stored original.\<close>

lemma applyHoverEffect_selected:
  "selectedObject s = Some m \<Longrightarrow> applyHoverEffect m s = Inr s"
  by (simp add: applyHoverEffect_def)

lemma applyHoverEffect_Inr:
  assumes "selectedObject s \<noteq> Some m" and "originalMaterials s m = Some r"
  shows "applyHoverEffect m s =
     Inr (s\<lparr>materialStore :=
              (materialStore s)(materialNext s :=
                 (materialStore s r)\<lparr>emissive := 0x4444FF, emissiveIntensity := 0.4\<rparr>),
            materialNext := Suc (materialNext s),
            meshes := (meshes s)(m :=
              (rememberScale ((meshes s m)\<lparr>material := Some (materialNext s)\<rparr>))
                \<lparr>scale := multiplyScalar (scale (meshes s m)) 1.05,
                 hovering := True, hoverTime := 0\<rparr>)\<rparr>)"
  using assms
  by (simp add: applyHoverEffect_def clone_def setEmissive_def setMesh_def Let_def
      rememberScale_simps)

lemma applyHoverEffect_Inl:
  assumes "selectedObject s \<noteq> Some m" and "originalMaterials s m = None"
  shows "applyHoverEffect m s = Inl TypeError"
  using assms by (simp add: applyHoverEffect_def)

lemma hovering_off:
  "(if hovering m then m\<lparr>hovering := False\<rparr> else m) = m\<lparr>hovering := False\<rparr>"
  for m :: mesh
  by (cases m) simp

lemma applySelectionEffect_Inr:
  assumes "originalMaterials s m = Some r"
  shows "applySelectionEffect m s =
     Inr (s\<lparr>materialStore :=
              (materialStore s)(materialNext s :=
                 (materialStore s r)\<lparr>emissive := 0x4444FF, emissiveIntensity := 0.5\<rparr>),
            materialNext := Suc (materialNext s),
            meshes := (meshes s)(m :=
              (meshes s m)\<lparr>material := Some (materialNext s), hovering := False\<rparr>)\<rparr>)"
  using assms
  by (simp add: applySelectionEffect_def clone_def setEmissive_def setMesh_def Let_def
      hovering_off)

lemma applySelectionEffect_Inl:
  assumes "originalMaterials s m = None"
  shows "applySelectionEffect m s = Inl TypeError"
  using assms by (simp add: applySelectionEffect_def)

lemma updatePart_simps:
  "materialStore (updatePart dt p s) = materialStore s"
  "materialNext (updatePart dt p s) = materialNext s"
  "originalMaterials (updatePart dt p s) = originalMaterials s"
  "selectedObject (updatePart dt p s) = selectedObject s"
  "hoveredObject (updatePart dt p s) = hoveredObject s"
  "productParts (updatePart dt p s) = productParts s"
  "partInfoHidden (updatePart dt p s) = partInfoHidden s"
  by (simp_all add: updatePart_def Let_def setMesh_simps removePulseAnimation_simps)

lemma updatePart_other: "q \<noteq> p \<Longrightarrow> meshes (updatePart dt p s) q = meshes s q"
  by (simp add: updatePart_def Let_def setMesh_simps removePulseAnimation_simps)

lemma updateParts_simps:
  "materialStore (updateParts dt ps s) = materialStore s"
  "materialNext (updateParts dt ps s) = materialNext s"
  "originalMaterials (updateParts dt ps s) = originalMaterials s"
  "selectedObject (updateParts dt ps s) = selectedObject s"
  "hoveredObject (updateParts dt ps s) = hoveredObject s"
  "productParts (updateParts dt ps s) = productParts s"
  "partInfoHidden (updateParts dt ps s) = partInfoHidden s"
  by (induction ps arbitrary: s; simp add: updatePart_simps)+

lemma updateParts_other: "q \<notin> set ps \<Longrightarrow> meshes (updateParts dt ps s) q = meshes s q"
  by (induction ps arbitrary: s) (auto simp add: updatePart_other)

subsection \<open>Existing materials are never written\<close>

lemma keepsMaterials_refl: "keepsMaterials s s"
  by (simp add: keepsMaterials_def)

lemma keepsMaterials_trans:
  "keepsMaterials s s1 \<Longrightarrow> keepsMaterials s1 s2 \<Longrightarrow> keepsMaterials s s2"
  by (auto simp add: keepsMaterials_def)

lemma applyHoverEffect_keeps:
  assumes "applyHoverEffect m s = Inr s'"
  shows "keepsMaterials s s'"
proof (cases "selectedObject s = Some m")
  case True
  then show ?thesis
    using assms by (simp add: applyHoverEffect_selected keepsMaterials_def)
next
  case False
  show ?thesis
  proof (cases "originalMaterials s m")
    case None
    then show ?thesis
      using assms False by (simp add: applyHoverEffect_Inl)
  next
    case (Some r)
    then show ?thesis
      using assms False by (auto simp add: applyHoverEffect_Inr keepsMaterials_def)
  qed
qed

lemma applySelectionEffect_keeps:
  assumes "applySelectionEffect m s = Inr s'"
  shows "keepsMaterials s s'"
proof (cases "originalMaterials s m")
  case None
  then show ?thesis
    using assms by (simp add: applySelectionEffect_Inl)
next
  case (Some r)
  then show ?thesis
    using assms by (auto simp add: applySelectionEffect_Inr keepsMaterials_def)
qed

lemma handleHover_keeps:
  assumes "handleHover xs s = Inr s'"
  shows "keepsMaterials s s'"
proof (cases xs)
  case Nil
  then show ?thesis
    using assms by (auto simp add: handleHover_def keepsMaterials_def clearHover_simps)
next
  case (Cons m rest)
  show ?thesis
  proof (cases "hoveredObject s = Some m")
    case True
    then show ?thesis
      using assms Cons by (simp add: handleHover_def keepsMaterials_refl)
  next
    case False
    let ?a = "(clearHover s)\<lparr>hoveredObject := Some m\<rparr>"
    obtain s1 where s1: "applyHoverEffect m ?a = Inr s1" and s': "s' = s1\<lparr>cursor := ''pointer''\<rparr>"
      using assms Cons False by (auto simp add: handleHover_def split: sum.splits)
    have "keepsMaterials s ?a"
      by (simp add: keepsMaterials_def clearHover_simps)
    moreover have "keepsMaterials ?a s1"
      by (rule applyHoverEffect_keeps [OF s1])
    moreover have "keepsMaterials s1 s'"
      by (simp add: s' keepsMaterials_def)
    ultimately show ?thesis
      by (blast intro: keepsMaterials_trans)
  qed
qed

lemma selectObject_keeps:
  assumes "selectObject m s = Inr s'"
  shows "keepsMaterials s s'"
proof -
  let ?a = "(deselectObject s)\<lparr>selectedObject := Some m\<rparr>"
  obtain s1 where s1: "applySelectionEffect m ?a = Inr s1"
    and s': "s' = addPulseAnimation m (showPartInfo m s1)"
    using assms by (auto simp add: selectObject_def split: sum.splits)
  have "keepsMaterials s ?a"
    by (simp add: keepsMaterials_def deselectObject_simps)
  moreover have "keepsMaterials ?a s1"
    by (rule applySelectionEffect_keeps [OF s1])
  moreover have "keepsMaterials s1 s'"
    by (simp add: s' keepsMaterials_def addPulseAnimation_simps showPartInfo_simps)
  ultimately show ?thesis
    by (blast intro: keepsMaterials_trans)
qed

lemma react_keeps:
  assumes "react e s = Inr s'"
  shows "keepsMaterials s s'"
proof (cases e)
  case (PointerMove xs)
  then show ?thesis using assms by (simp add: handleHover_keeps)
next
  case (PointerClick xs)
  show ?thesis
  proof (cases xs)
    case Nil
    then show ?thesis
      using assms PointerClick
      by (auto simp add: handleClick_def keepsMaterials_def deselectObject_simps)
  next
    case (Cons m rest)
    then show ?thesis
      using assms PointerClick by (simp add: handleClick_def selectObject_keeps)
  qed
next
  case PointerLeave
  then show ?thesis using assms by (auto simp add: keepsMaterials_def clearHover_simps)
next
  case CloseInfo
  then show ?thesis using assms by (auto simp add: keepsMaterials_def hidePartInfo_simps)
next
  case (Tick dt)
  then show ?thesis
    using assms by (auto simp add: keepsMaterials_def updatePulseAnimations_def updateParts_simps)
qed

lemma reactAll_keeps:
  assumes "reactAll es s = Inr s'"
  shows "keepsMaterials s s'"
  using assms
proof (induction es arbitrary: s)
  case Nil
  then show ?case by (simp add: keepsMaterials_refl)
next
  case (Cons e es)
  then obtain s1 where s1: "react e s = Inr s1" and rest: "reactAll es s1 = Inr s'"
    by (auto split: sum.splits)
  show ?case
    using react_keeps [OF s1] Cons.IH [OF rest] by (rule keepsMaterials_trans)
qed

subsection \<open>The handlers keep the manager consistent\<close>

lemma clearHover_consistent:
  assumes "consistent s"
  shows "consistent (clearHover s)"
  using assms
  unfolding consistent_def
  by (auto simp add: clearHover_simps restoreScale_simps split: option.splits if_splits)

lemma hoveredObject_update_consistent:
  assumes "consistent s" and "hoveredObject s = None \<or> hoveredObject s = selectedObject s"
  shows "consistent (s\<lparr>hoveredObject := Some m\<rparr>)"
  using assms
  unfolding consistent_def
  by auto

lemma applyHoverEffect_consistent:
  assumes "consistent s" and "hoveredObject s = Some m" and "applyHoverEffect m s = Inr s'"
  shows "consistent s'"
proof (cases "selectedObject s = Some m")
  case True
  then show ?thesis
    using assms by (simp add: applyHoverEffect_selected)
next
  case False
  show ?thesis
  proof (cases "originalMaterials s m")
    case None
    then show ?thesis
      using assms False by (simp add: applyHoverEffect_Inl)
  next
    case (Some r)
    have s': "s' = s\<lparr>materialStore :=
              (materialStore s)(materialNext s :=
                 (materialStore s r)\<lparr>emissive := 0x4444FF, emissiveIntensity := 0.4\<rparr>),
            materialNext := Suc (materialNext s),
            meshes := (meshes s)(m :=
              (rememberScale ((meshes s m)\<lparr>material := Some (materialNext s)\<rparr>))
                \<lparr>scale := multiplyScalar (scale (meshes s m)) 1.05,
                 hovering := True, hoverTime := 0\<rparr>)\<rparr>"
      using assms(3) applyHoverEffect_Inr [OF False Some] by simp
    show ?thesis
      using assms(1,2) False
      unfolding consistent_def s'
      by (auto simp add: rememberScale_simps less_Suc_eq split: option.splits)
  qed
qed

lemma handleHover_consistent:
  assumes "consistent s" and "handleHover xs s = Inr s'"
  shows "consistent s'"
proof (cases xs)
  case Nil
  then show ?thesis
    using assms by (auto simp add: handleHover_def clearHover_consistent)
next
  case (Cons m rest)
  show ?thesis
  proof (cases "hoveredObject s = Some m")
    case True
    then show ?thesis
      using assms Cons by (simp add: handleHover_def)
  next
    case False
    let ?a = "(clearHover s)\<lparr>hoveredObject := Some m\<rparr>"
    obtain s1 where s1: "applyHoverEffect m ?a = Inr s1" and s': "s' = s1\<lparr>cursor := ''pointer''\<rparr>"
      using assms Cons False by (auto simp add: handleHover_def split: sum.splits)
    have "consistent ?a"
      by (rule hoveredObject_update_consistent [OF clearHover_consistent [OF assms(1)]])
         (auto simp add: clearHover_simps)
    then have "consistent s1"
      by (rule applyHoverEffect_consistent [OF _ _ s1]) simp
    then show ?thesis
      by (simp add: s' consistent_def)
  qed
qed

lemma deselectObject_consistent:
  assumes "consistent s"
  shows "consistent (deselectObject s)"
  using assms
  unfolding consistent_def
  by (auto simp add: deselectObject_simps restoreScale_simps split: option.splits if_splits)

lemma selectObject_consistent:
  assumes "consistent s" and "selectObject m s = Inr s'"
  shows "consistent s'"
proof -
  let ?d = "deselectObject s"
  let ?a = "?d\<lparr>selectedObject := Some m\<rparr>"
  obtain s1 where s1: "applySelectionEffect m ?a = Inr s1"
    and s': "s' = addPulseAnimation m (showPartInfo m s1)"
    using assms by (auto simp add: selectObject_def split: sum.splits)
  obtain r where r: "originalMaterials ?a m = Some r"
    using s1 by (cases "originalMaterials ?a m") (simp_all add: applySelectionEffect_Inl)
  have d: "consistent ?d"
    by (rule deselectObject_consistent [OF assms(1)])
  have sel: "selectedObject ?d = None"
    by (simp add: deselectObject_simps)
  show ?thesis
    using d sel s1 r
    unfolding s' consistent_def
    by (auto simp add: applySelectionEffect_Inr addPulseAnimation_simps showPartInfo_simps
        rememberScale_simps less_Suc_eq split: option.splits if_splits)
qed

lemma updatePart_mesh:
  "meshes (updatePart dt p s) p =
     (let m = meshes s p;
          m1 = (if pulsing m then
                  let m' = m\<lparr>pulseTime := pulseTime m + dt,
                               scale := multiplyScalar
                                  (case originalScale m of None \<Rightarrow> Vector3 1 1 1 | Some v \<Rightarrow> v)
                                  (1 + sin ((pulseTime m + dt) * 0.01) * 0.05)\<rparr>
                  in if pulseTime m + dt > 6280 then restoreScale (m'\<lparr>pulsing := False\<rparr>) else m'
                else m)
      in if hovering m1 \<and> \<not> pulsing m1 then
           m1\<lparr>hoverTime := hoverTime m1 + dt,
               scale := multiplyScalar
                  (case originalScale m1 of None \<Rightarrow> Vector3 1 1 1 | Some v \<Rightarrow> v)
                  (1.05 + sin ((hoverTime m1 + dt) * 0.005) * 0.01)\<rparr>
         else m1)"
  by (simp add: updatePart_def Let_def setMesh_simps removePulseAnimation_simps
      restoreScale_simps)

lemma updatePart_consistent:
  assumes "consistent s"
  shows "consistent (updatePart dt p s)"
proof -
  have other: "\<And>q. q \<noteq> p \<Longrightarrow> meshes (updatePart dt p s) q = meshes s q"
    by (simp add: updatePart_other)
  have flags:
    "pulsing (meshes (updatePart dt p s) p) \<longrightarrow>
       pulsing (meshes s p) \<and> pulseTime (meshes (updatePart dt p s) p) \<le> 6280"
    "hovering (meshes (updatePart dt p s) p) = hovering (meshes s p)"
    "originalScale (meshes (updatePart dt p s) p) = originalScale (meshes s p)"
    by (auto simp add: updatePart_mesh Let_def restoreScale_simps)
  have idle: "\<not> pulsing (meshes s p) \<Longrightarrow> \<not> hovering (meshes s p)
      \<Longrightarrow> meshes (updatePart dt p s) p = meshes s p"
    by (simp add: updatePart_mesh Let_def)
  show ?thesis
    unfolding consistent_def
  proof (intro conjI allI impI)
    fix q r
    assume "originalMaterials (updatePart dt p s) q = Some r"
    then show "r < materialNext (updatePart dt p s)"
      using assms by (simp add: updatePart_simps consistent_def)
  next
    fix q
    assume "pulsing (meshes (updatePart dt p s) q)"
    then show "selectedObject (updatePart dt p s) = Some q"
      and "pulseTime (meshes (updatePart dt p s) q) \<le> 6280"
      using assms flags(1) other [of q]
      by (cases "q = p"; auto simp add: updatePart_simps consistent_def)+
  next
    fix q
    assume "hovering (meshes (updatePart dt p s) q)"
    then show "hoveredObject (updatePart dt p s) = Some q"
      and "selectedObject (updatePart dt p s) \<noteq> Some q"
      and "originalScale (meshes (updatePart dt p s) q) \<noteq> None"
      using assms flags(2,3) other [of q]
      by (cases "q = p"; simp add: updatePart_simps consistent_def)+
  next
    fix q
    assume "selectedObject (updatePart dt p s) = Some q"
    then show "originalScale (meshes (updatePart dt p s) q) \<noteq> None"
      using assms flags(3) other [of q]
      by (cases "q = p"; simp add: updatePart_simps consistent_def)
  next
    fix q v
    assume a: "hoveredObject (updatePart dt p s) \<noteq> Some q"
      "selectedObject (updatePart dt p s) \<noteq> Some q"
      "originalScale (meshes (updatePart dt p s) q) = Some v"
    show "scale (meshes (updatePart dt p s) q) = v"
    proof (cases "q = p")
      case True
      have "\<not> pulsing (meshes s p)" "\<not> hovering (meshes s p)"
        using assms a True by (auto simp add: updatePart_simps consistent_def)
      then have "meshes (updatePart dt p s) p = meshes s p"
        by (rule idle)
      then show ?thesis
        using assms a True by (simp add: updatePart_simps consistent_def)
    next
      case False
      then show ?thesis
        using assms a other [of q] by (simp add: updatePart_simps consistent_def)
    qed
  qed
qed

lemma updateParts_consistent:
  assumes "consistent s"
  shows "consistent (updateParts dt ps s)"
  using assms by (induction ps arbitrary: s) (simp_all add: updatePart_consistent)

lemma react_consistent:
  assumes "consistent s" and "react e s = Inr s'"
  shows "consistent s'"
proof (cases e)
  case (PointerMove xs)
  then show ?thesis using assms by (simp add: handleHover_consistent)
next
  case (PointerClick xs)
  show ?thesis
  proof (cases xs)
    case Nil
    then show ?thesis
      using assms PointerClick by (auto simp add: handleClick_def deselectObject_consistent)
  next
    case (Cons m rest)
    then show ?thesis
      using assms PointerClick by (simp add: handleClick_def selectObject_consistent)
  qed
next
  case PointerLeave
  then show ?thesis using assms by (auto simp add: clearHover_consistent)
next
  case CloseInfo
  then show ?thesis using assms by (auto simp add: hidePartInfo_def consistent_def)
next
  case (Tick dt)
  then show ?thesis
    using assms by (auto simp add: updatePulseAnimations_def updateParts_consistent)
qed

lemma reactAll_consistent:
  assumes "consistent s" and "reactAll es s = Inr s'"
  shows "consistent s'"
  using assms
proof (induction es arbitrary: s)
  case Nil
  then show ?case by simp
next
  case (Cons e es)
  then obtain s1 where s1: "react e s = Inr s1" and rest: "reactAll es s1 = Inr s'"
    by (auto split: sum.splits)
  show ?case
    by (rule Cons.IH [OF react_consistent [OF Cons.prems(1) s1] rest])
qed

subsection \<open>The constructor\<close>

lemma storeMaterials_frame:
  assumes "storeMaterials ps s = Inr s'"
  shows "meshes s' = meshes s \<and> hoveredObject s' = hoveredObject s
       \<and> selectedObject s' = selectedObject s \<and> productParts s' = productParts s
       \<and> materialNext s' = materialNext s + length ps
       \<and> (\<forall>r<materialNext s. materialStore s' r = materialStore s r)
       \<and> (\<forall>p. p \<notin> set ps \<longrightarrow> originalMaterials s' p = originalMaterials s p)"
  using assms
proof (induction ps arbitrary: s)
  case Nil
  then show ?case by simp
next
  case (Cons part ps)
  obtain b where b: "material (meshes s part) = Some b"
    using Cons.prems by (cases "material (meshes s part)") simp_all
  let ?s1 = "s\<lparr>materialStore := (materialStore s)(materialNext s := materialStore s b),
               materialNext := Suc (materialNext s),
               originalMaterials := (originalMaterials s)(part \<mapsto> materialNext s)\<rparr>"
  have rest: "storeMaterials ps ?s1 = Inr s'"
    using Cons.prems b by (simp add: clone_def)
  show ?case
    using Cons.IH [OF rest] by auto
qed

lemma storeMaterials_stored:
  assumes "storeMaterials ps s = Inr s'" and "p \<in> set ps"
  shows "\<exists>b c. material (meshes s p) = Some b \<and> originalMaterials s' p = Some c
           \<and> materialNext s \<le> c \<and> c < materialNext s'
           \<and> (b < materialNext s \<longrightarrow> materialStore s' c = materialStore s b)"
  using assms
proof (induction ps arbitrary: s)
  case Nil
  then show ?case by simp
next
  case (Cons part ps)
  obtain b where b: "material (meshes s part) = Some b"
    using Cons.prems by (cases "material (meshes s part)") simp_all
  let ?s1 = "s\<lparr>materialStore := (materialStore s)(materialNext s := materialStore s b),
               materialNext := Suc (materialNext s),
               originalMaterials := (originalMaterials s)(part \<mapsto> materialNext s)\<rparr>"
  have rest: "storeMaterials ps ?s1 = Inr s'"
    using Cons.prems b by (simp add: clone_def)
  note frame = storeMaterials_frame [OF rest]
  show ?case
  proof (cases "p \<in> set ps")
    case True
    obtain b' c where
      "material (meshes ?s1 p) = Some b'" "originalMaterials s' p = Some c"
      "materialNext ?s1 \<le> c" "c < materialNext s'"
      "b' < materialNext ?s1 \<longrightarrow> materialStore s' c = materialStore ?s1 b'"
      using Cons.IH [OF rest True] by blast
    then show ?thesis
      by (intro exI [of _ b'] exI [of _ c]) auto
  next
    case False
    then have p: "p = part"
      using Cons.prems(2) by simp
    have "originalMaterials s' part = Some (materialNext s)"
      using frame False p by simp
    moreover have "materialStore s' (materialNext s) = materialStore s b"
      using frame by simp
    moreover have "materialNext s < materialNext s'"
      using frame by simp
    ultimately show ?thesis
      using b p by simp
  qed
qed

lemma storeMaterials_allocated:
  assumes "storeMaterials ps s = Inr s'"
    and "\<forall>p r. originalMaterials s p = Some r \<longrightarrow> r < materialNext s"
  shows "\<forall>p r. originalMaterials s' p = Some r \<longrightarrow> r < materialNext s'"
proof (intro allI impI)
  fix p r
  assume r: "originalMaterials s' p = Some r"
  show "r < materialNext s'"
  proof (cases "p \<in> set ps")
    case True
    then show ?thesis
      using storeMaterials_stored [OF assms(1) True] r by auto
  next
    case False
    then have "originalMaterials s p = Some r"
      using storeMaterials_frame [OF assms(1)] r by simp
    then have "r < materialNext s"
      using assms(2) by blast
    then show ?thesis
      using storeMaterials_frame [OF assms(1)] by simp
  qed
qed

text \<open>
  The product builder creates every mesh with \<^verbatim>\<open>userData = { name, partType }\<close>: no
  animation flag and no original scale are set when the manager is constructed.
\<close>

lemma InteractionManager_consistent:
  assumes "InteractionManager store next ms parts = Inr s"
    and "\<forall>p. \<not> pulsing (ms p) \<and> \<not> hovering (ms p) \<and> originalScale (ms p) = None"
  shows "consistent s"
proof -
  let ?i = "\<lparr>materialStore = store, materialNext = next, meshes = ms, productParts = parts,
        hoveredObject = None, selectedObject = None, originalMaterials = Map.empty,
        partInfoHidden = True, partNameText = [], cursor = ''default''\<rparr>"
  have st: "storeMaterials parts ?i = Inr s"
    using assms(1) by (simp add: InteractionManager_def)
  have "\<forall>p r. originalMaterials s p = Some r \<longrightarrow> r < materialNext s"
    by (rule storeMaterials_allocated [OF st]) simp
  moreover have "meshes s = ms" "hoveredObject s = None" "selectedObject s = None"
    using storeMaterials_frame [OF st] by simp_all
  ultimately show ?thesis
    using assms(2) by (simp add: consistent_def)
qed

lemma InteractionManager_stored:
  assumes "InteractionManager store next ms parts = Inr s" and "p \<in> set parts"
  shows "\<exists>b c. material (ms p) = Some b \<and> material (meshes s p) = Some b
           \<and> originalMaterials s p = Some c \<and> next \<le> c
           \<and> (b < next \<longrightarrow> c \<noteq> b \<and> materialStore s c = store b \<and> materialStore s b = store b)"
proof -
  let ?i = "\<lparr>materialStore = store, materialNext = next, meshes = ms, productParts = parts,
        hoveredObject = None, selectedObject = None, originalMaterials = Map.empty,
        partInfoHidden = True, partNameText = [], cursor = ''default''\<rparr>"
  have st: "storeMaterials parts ?i = Inr s"
    using assms(1) by (simp add: InteractionManager_def)
  obtain b c where bc: "material (meshes ?i p) = Some b" "originalMaterials s p = Some c"
    "materialNext ?i \<le> c" "b < materialNext ?i \<longrightarrow> materialStore s c = materialStore ?i b"
    using storeMaterials_stored [OF st assms(2)] by blast
  have frame: "meshes s = ms" "\<forall>r<next. materialStore s r = store r"
    using storeMaterials_frame [OF st] by simp_all
  show ?thesis
    using bc frame by (intro exI [of _ b] exI [of _ c]) auto
qed

subsection \<open>The viewer at startup\<close>

lemma viewer_state:
  "viewer = Inr \<lparr>materialStore = createMaterials(3 := cushion, 4 := wood, 5 := wood),
       materialNext = 6, meshes = chairMeshes, productParts = chairParts,
       hoveredObject = None, selectedObject = None,
       originalMaterials = [0 \<mapsto> 3, 1 \<mapsto> 4, 2 \<mapsto> 5],
       partInfoHidden = True, partNameText = [], cursor = ''default''\<rparr>"
  by (simp add: viewer_def InteractionManager_def chairParts_def chairMeshes_def newMesh_def
      clone_def createMaterials_def)

lemmas interaction_defs =
  handleHover_def handleClick_def selectObject_def deselectObject_def clearHover_def
  applyHoverEffect_def applySelectionEffect_def clearSelectionEffect_def
  addPulseAnimation_def removePulseAnimation_def showPartInfo_def hidePartInfo_def
  clone_def setEmissive_def setMesh_def restoreScale_def rememberScale_def
  multiplyScalar_def Let_def

subsection \<open>Tinting works on fresh clones\<close>

text \<open>
  Claim C7. A hover or selection effect clones the stored original, sets the emissive
  colour and intensity of the clone and gives the clone to the mesh; the clone is at a
  reference that did not exist before. Hence, after any sequence of pointer moves, clicks,
  pointer leaves, panel closings and animation frames, every material that existed
  before, the stored originals and the builder's shared materials among them, has all
  its parameters unchanged, and the map of stored originals is the same.
\<close>

theorem tinting_keeps_existing_materials:
  assumes "reactAll es s = Inr s'"
  shows "originalMaterials s' = originalMaterials s
       \<and> (\<forall>r<materialNext s. materialStore s' r = materialStore s r)
       \<and> (\<forall>m a b. selectedObject s \<noteq> Some m \<longrightarrow> originalMaterials s m = Some b \<longrightarrow>
              applyHoverEffect m s = Inr a \<longrightarrow>
              material (meshes a m) = Some (materialNext s)
              \<and> materialStore a (materialNext s)
                  = (materialStore s b)\<lparr>emissive := 0x4444FF, emissiveIntensity := 0.4\<rparr>
              \<and> (\<forall>r<materialNext s. materialStore a r = materialStore s r))
       \<and> (\<forall>m a b. originalMaterials s m = Some b \<longrightarrow> applySelectionEffect m s = Inr a \<longrightarrow>
              material (meshes a m) = Some (materialNext s)
              \<and> materialStore a (materialNext s)
                  = (materialStore s b)\<lparr>emissive := 0x4444FF, emissiveIntensity := 0.5\<rparr>
              \<and> (\<forall>r<materialNext s. materialStore a r = materialStore s r))"
proof -
  have "keepsMaterials s s'"
    by (rule reactAll_keeps [OF assms])
  then have seq: "originalMaterials s' = originalMaterials s"
    "\<forall>r<materialNext s. materialStore s' r = materialStore s r"
    by (simp_all add: keepsMaterials_def)
  have hov: "material (meshes a m) = Some (materialNext s)
      \<and> materialStore a (materialNext s)
          = (materialStore s b)\<lparr>emissive := 0x4444FF, emissiveIntensity := 0.4\<rparr>
      \<and> (\<forall>r<materialNext s. materialStore a r = materialStore s r)"
    if "selectedObject s \<noteq> Some m" "originalMaterials s m = Some b"
      "applyHoverEffect m s = Inr a" for m a b
    using that by (auto simp add: applyHoverEffect_Inr rememberScale_simps)
  have sel: "material (meshes a m) = Some (materialNext s)
      \<and> materialStore a (materialNext s)
          = (materialStore s b)\<lparr>emissive := 0x4444FF, emissiveIntensity := 0.5\<rparr>
      \<and> (\<forall>r<materialNext s. materialStore a r = materialStore s r)"
    if "originalMaterials s m = Some b" "applySelectionEffect m s = Inr a" for m a b
    using that by (auto simp add: applySelectionEffect_Inr)
  show ?thesis
    using seq hov sel by blast
qed

theorem tinting_keeps_existing_materials_witness:
  "reactAll [PointerMove [1], PointerClick [1], PointerMove [2], PointerClick [], PointerLeave]
       (projr viewer)
     = Inr (projr (reactAll
         [PointerMove [1], PointerClick [1], PointerMove [2], PointerClick [], PointerLeave]
         (projr viewer)))
   \<and> materialStore (projr (reactAll
         [PointerMove [1], PointerClick [1], PointerMove [2], PointerClick [], PointerLeave]
         (projr viewer))) 0 = wood
   \<and> materialStore (projr (reactAll
         [PointerMove [1], PointerClick [1], PointerMove [2], PointerClick [], PointerLeave]
         (projr viewer))) 4 = wood
   \<and> originalMaterials (projr (reactAll
         [PointerMove [1], PointerClick [1], PointerMove [2], PointerClick [], PointerLeave]
         (projr viewer))) 1 = Some 4
   \<and> material (meshes (projr (applyHoverEffect 1 (projr viewer))) 1) = Some 6
   \<and> emissiveIntensity (materialStore (projr (applySelectionEffect 1 (projr viewer))) 6) = 0.5"
proof -
  let ?es = "[PointerMove [1], PointerClick [1], PointerMove [2], PointerClick [], PointerLeave]"
  have run: "reactAll ?es (projr viewer) = Inr (projr (reactAll ?es (projr viewer)))"
    by (simp add: viewer_state interaction_defs chairMeshes_def newMesh_def)
  have start: "materialNext (projr viewer) = 6" "materialStore (projr viewer) 0 = wood"
    "materialStore (projr viewer) 4 = wood" "originalMaterials (projr viewer) 1 = Some 4"
    "selectedObject (projr viewer) \<noteq> Some 1"
    by (simp_all add: viewer_state createMaterials_def)
  have hov: "applyHoverEffect 1 (projr viewer) = Inr (projr (applyHoverEffect 1 (projr viewer)))"
    by (simp add: viewer_state interaction_defs)
  have sel: "applySelectionEffect 1 (projr viewer)
      = Inr (projr (applySelectionEffect 1 (projr viewer)))"
    by (simp add: viewer_state interaction_defs)
  show ?thesis
    using tinting_keeps_existing_materials [OF run] run start hov sel
    by (simp add: wood_def)
qed

subsection \<open>The selected part and hovering\<close>

text \<open>
  Claim C10. The selected part is immune to hover effects: \<^verbatim>\<open>applyHoverEffect\<close> returns
  the state as it is for the selected part, \<^verbatim>\<open>clearHover\<close> leaves the selected part as it
  is, and after any pointer move the selected part has the mesh record it had (material
  reference, scale and animation fields), it is still selected, and no material that
  existed has been written.
\<close>

theorem selected_immune_to_hover:
  assumes "selectedObject s = Some p"
  shows "applyHoverEffect p s = Inr s
       \<and> meshes (clearHover s) p = meshes s p
       \<and> selectedObject (clearHover s) = Some p
       \<and> (\<forall>xs s'. handleHover xs s = Inr s' \<longrightarrow>
              meshes s' p = meshes s p \<and> selectedObject s' = Some p
              \<and> (\<forall>r<materialNext s. materialStore s' r = materialStore s r))"
proof -
  have a: "applyHoverEffect p s = Inr s"
    by (rule applyHoverEffect_selected [OF assms])
  have b: "meshes (clearHover s) p = meshes s p" "selectedObject (clearHover s) = Some p"
    using assms by (simp_all add: clearHover_simps)
  have c: "meshes s' p = meshes s p \<and> selectedObject s' = Some p
           \<and> (\<forall>r<materialNext s. materialStore s' r = materialStore s r)"
    if run: "handleHover xs s = Inr s'" for xs s'
  proof -
    have store: "\<forall>r<materialNext s. materialStore s' r = materialStore s r"
      using handleHover_keeps [OF run] by (simp add: keepsMaterials_def)
    have "meshes s' p = meshes s p \<and> selectedObject s' = Some p"
    proof (cases xs)
      case Nil
      then show ?thesis
        using run b by (auto simp add: handleHover_def)
    next
      case (Cons m rest)
      show ?thesis
      proof (cases "hoveredObject s = Some m")
        case True
        then show ?thesis
          using run Cons assms by (simp add: handleHover_def)
      next
        case False
        let ?a = "(clearHover s)\<lparr>hoveredObject := Some m\<rparr>"
        obtain s1 where s1: "applyHoverEffect m ?a = Inr s1"
          and s': "s' = s1\<lparr>cursor := ''pointer''\<rparr>"
          using run Cons False by (auto simp add: handleHover_def split: sum.splits)
        have pre: "meshes ?a p = meshes s p" "selectedObject ?a = Some p"
          using b by simp_all
        show ?thesis
        proof (cases "m = p")
          case True
          then have "s1 = ?a"
            using s1 pre by (simp add: applyHoverEffect_selected)
          then show ?thesis
            using pre by (simp add: s')
        next
          case False
          then have ns: "selectedObject ?a \<noteq> Some m"
            using pre by simp
          obtain r where r: "originalMaterials ?a m = Some r"
            using s1 ns by (cases "originalMaterials ?a m") (simp_all add: applyHoverEffect_Inl)
          show ?thesis
            using s1 pre False unfolding s' applyHoverEffect_Inr [OF ns r] by auto
        qed
      qed
    qed
    then show ?thesis
      using store by simp
  qed
  show ?thesis
    using a b c by blast
qed

theorem selected_immune_to_hover_witness:
  "selectedObject (projr (reactAll [PointerMove [1], PointerClick [1]] (projr viewer))) = Some 1
   \<and> handleHover [0] (projr (reactAll [PointerMove [1], PointerClick [1]] (projr viewer)))
       = Inr (projr (handleHover [0]
                (projr (reactAll [PointerMove [1], PointerClick [1]] (projr viewer)))))
   \<and> meshes (projr (handleHover [0]
                (projr (reactAll [PointerMove [1], PointerClick [1]] (projr viewer))))) 1
       = meshes (projr (reactAll [PointerMove [1], PointerClick [1]] (projr viewer))) 1
   \<and> meshes (clearHover (projr (reactAll [PointerMove [1], PointerClick [1]] (projr viewer)))) 1
       = meshes (projr (reactAll [PointerMove [1], PointerClick [1]] (projr viewer))) 1"
proof -
  let ?s = "projr (reactAll [PointerMove [1], PointerClick [1]] (projr viewer))"
  have sel: "selectedObject ?s = Some 1"
    by (simp add: viewer_state interaction_defs chairMeshes_def newMesh_def)
  have run: "handleHover [0] ?s = Inr (projr (handleHover [0] ?s))"
    by (simp add: viewer_state interaction_defs chairMeshes_def newMesh_def)
  show ?thesis
    using selected_immune_to_hover [OF sel] sel run by blast
qed

subsection \<open>Clicks\<close>

text \<open>
  Claim C4. A click whose ray hits at least one interactive part selects the nearest one:
  the state from which the selection effect is applied is the one \<^verbatim>\<open>deselectObject\<close>
  leaves, in which a previously selected part has its stored original material, its
  original scale and no pulse flag and nothing is selected; the clicked part then gets
  the selection material (a fresh clone of intensity 0.5), a pulse that starts at time 0,
  and the info panel is shown. A previously selected part other than the clicked one
  stays as \<^verbatim>\<open>deselectObject\<close> left it. A click that hits nothing ends in the state that
  \<^verbatim>\<open>deselectObject\<close> leaves, with nothing selected and the info panel hidden.
\<close>

theorem click_selects_after_clearing:
  assumes "consistent s" and "originalMaterials s m = Some r"
  shows "(\<exists>s'. handleClick (m # rest) s = Inr s'
            \<and> selectedObject s' = Some m
            \<and> material (meshes s' m) = Some (materialNext s)
            \<and> materialStore s' (materialNext s)
                = (materialStore s r)\<lparr>emissive := 0x4444FF, emissiveIntensity := 0.5\<rparr>
            \<and> pulsing (meshes s' m) \<and> pulseTime (meshes s' m) = 0
            \<and> \<not> partInfoHidden s'
            \<and> scale (meshes s' m) = scale (meshes (deselectObject s) m)
            \<and> (\<forall>p. selectedObject s = Some p \<longrightarrow> p \<noteq> m \<longrightarrow>
                   meshes s' p = meshes (deselectObject s) p))
       \<and> (\<forall>p. selectedObject s = Some p \<longrightarrow>
              material (meshes (deselectObject s) p) = originalMaterials s p
              \<and> originalScale (meshes s p) = Some (scale (meshes (deselectObject s) p))
              \<and> \<not> pulsing (meshes (deselectObject s) p))
       \<and> handleClick [] s = Inr (deselectObject s)
       \<and> selectedObject (deselectObject s) = None
       \<and> partInfoHidden (deselectObject s)"
proof -
  let ?d = "deselectObject s"
  let ?a = "?d\<lparr>selectedObject := Some m\<rparr>"
  have r: "originalMaterials ?a m = Some r"
    using assms(2) by (simp add: deselectObject_simps)
  have next_a: "materialNext ?a = materialNext s" "materialStore ?a = materialStore s"
    by (simp_all add: deselectObject_simps)
  have click: "handleClick (m # rest) s
      = Inr (addPulseAnimation m (showPartInfo m
          (?a\<lparr>materialStore :=
                (materialStore ?a)(materialNext ?a :=
                   (materialStore ?a r)\<lparr>emissive := 0x4444FF, emissiveIntensity := 0.5\<rparr>),
              materialNext := Suc (materialNext ?a),
              meshes := (meshes ?a)(m :=
                (meshes ?a m)\<lparr>material := Some (materialNext ?a), hovering := False\<rparr>)\<rparr>)))"
    (is "_ = Inr ?s'")
    by (simp add: handleClick_def selectObject_def applySelectionEffect_Inr [OF r])
  have first: "selectedObject ?s' = Some m
            \<and> material (meshes ?s' m) = Some (materialNext s)
            \<and> materialStore ?s' (materialNext s)
                = (materialStore s r)\<lparr>emissive := 0x4444FF, emissiveIntensity := 0.5\<rparr>
            \<and> pulsing (meshes ?s' m) \<and> pulseTime (meshes ?s' m) = 0
            \<and> \<not> partInfoHidden ?s'
            \<and> scale (meshes ?s' m) = scale (meshes ?d m)
            \<and> (\<forall>p. selectedObject s = Some p \<longrightarrow> p \<noteq> m \<longrightarrow> meshes ?s' p = meshes ?d p)"
    by (simp add: addPulseAnimation_simps showPartInfo_simps rememberScale_simps next_a)
  have cleared: "material (meshes ?d p) = originalMaterials s p
              \<and> originalScale (meshes s p) = Some (scale (meshes ?d p))
              \<and> \<not> pulsing (meshes ?d p)"
    if sel: "selectedObject s = Some p" for p
  proof -
    have "originalScale (meshes s p) \<noteq> None"
      using assms(1) sel by (simp add: consistent_def)
    then obtain v where "originalScale (meshes s p) = Some v"
      by blast
    then show ?thesis
      using sel by (simp add: deselectObject_simps restoreScale_simps)
  qed
  have empty: "handleClick [] s = Inr ?d" "selectedObject ?d = None" "partInfoHidden ?d"
    by (simp_all add: handleClick_def deselectObject_simps)
  show ?thesis
    using click first cleared empty by blast
qed

theorem click_selects_after_clearing_witness:
  "consistent (projr (reactAll [PointerClick [1]] (projr viewer)))
   \<and> originalMaterials (projr (reactAll [PointerClick [1]] (projr viewer))) 2 = Some 5
   \<and> selectedObject (projr (reactAll [PointerClick [1]] (projr viewer))) = Some 1
   \<and> selectedObject (projr (handleClick [2, 1] (projr (reactAll [PointerClick [1]] (projr viewer)))))
       = Some 2
   \<and> material (meshes
        (projr (handleClick [2, 1] (projr (reactAll [PointerClick [1]] (projr viewer))))) 1)
       = Some 4
   \<and> \<not> pulsing (meshes
        (projr (handleClick [2, 1] (projr (reactAll [PointerClick [1]] (projr viewer))))) 1)
   \<and> selectedObject (projr (handleClick [] (projr (reactAll [PointerClick [1]] (projr viewer)))))
       = None"
proof -
  let ?s = "projr (reactAll [PointerClick [1]] (projr viewer))"
  have run: "reactAll [PointerClick [1]] (projr viewer) = Inr ?s"
    by (simp add: viewer_state interaction_defs chairMeshes_def newMesh_def)
  have "consistent (projr viewer)"
    by (rule InteractionManager_consistent [of createMaterials 3 chairMeshes chairParts])
       (simp_all add: viewer_state viewer_def [symmetric] chairMeshes_def newMesh_def)
  then have c: "consistent ?s"
    by (rule reactAll_consistent [OF _ run])
  have facts: "originalMaterials ?s 2 = Some 5" "selectedObject ?s = Some 1"
    "originalMaterials ?s 1 = Some 4"
    by (simp_all add: viewer_state interaction_defs chairMeshes_def newMesh_def)
  obtain s' where s': "handleClick [2, 1] ?s = Inr s'" "selectedObject s' = Some 2"
    "meshes s' 1 = meshes (deselectObject ?s) 1"
    using click_selects_after_clearing [OF c facts(1), of "[1]"] facts(2) by auto
  have d: "material (meshes (deselectObject ?s) 1) = Some 4"
    "\<not> pulsing (meshes (deselectObject ?s) 1)"
    "handleClick [] ?s = Inr (deselectObject ?s)" "selectedObject (deselectObject ?s) = None"
    using click_selects_after_clearing [OF c facts(1), of "[1]"] facts(2,3) by auto
  show ?thesis
    using c facts s' d by simp
qed

subsection \<open>Animation frames\<close>

lemma updatePart_static:
  "material (meshes (updatePart dt p s) q) = material (meshes s q)"
  "originalScale (meshes (updatePart dt p s) q) = originalScale (meshes s q)"
  "hovering (meshes (updatePart dt p s) q) = hovering (meshes s q)"
  by (cases "q = p"; simp add: updatePart_other; simp add: updatePart_mesh Let_def restoreScale_simps)+

lemma updateParts_static:
  "material (meshes (updateParts dt ps s) q) = material (meshes s q)"
  "originalScale (meshes (updateParts dt ps s) q) = originalScale (meshes s q)"
  "hovering (meshes (updateParts dt ps s) q) = hovering (meshes s q)"
  by (induction ps arbitrary: s; simp add: updatePart_static)+

lemma updatePulseFrames_simps:
  "materialStore (updatePulseFrames ds s) = materialStore s"
  "materialNext (updatePulseFrames ds s) = materialNext s"
  "originalMaterials (updatePulseFrames ds s) = originalMaterials s"
  "selectedObject (updatePulseFrames ds s) = selectedObject s"
  "hoveredObject (updatePulseFrames ds s) = hoveredObject s"
  "productParts (updatePulseFrames ds s) = productParts s"
  "material (meshes (updatePulseFrames ds s) q) = material (meshes s q)"
  "originalScale (meshes (updatePulseFrames ds s) q) = originalScale (meshes s q)"
  "hovering (meshes (updatePulseFrames ds s) q) = hovering (meshes s q)"
  by (induction ds arbitrary: s;
      simp add: updatePulseAnimations_def updateParts_simps updateParts_static)+

lemma updateParts_member:
  assumes "distinct ps" and "p \<in> set ps"
  shows "meshes (updateParts dt ps s) p = meshes (updatePart dt p s) p"
  using assms
proof (induction ps arbitrary: s)
  case Nil
  then show ?case by simp
next
  case (Cons a ps)
  show ?case
  proof (cases "a = p")
    case True
    then have "p \<notin> set ps"
      using Cons.prems(1) by simp
    then show ?thesis
      using True by (simp add: updateParts_other)
  next
    case False
    then have "p \<in> set ps" "distinct ps"
      using Cons.prems by simp_all
    then have "meshes (updateParts dt ps (updatePart dt a s)) p
        = meshes (updatePart dt p (updatePart dt a s)) p"
      by (simp add: Cons.IH)
    also have "\<dots> = meshes (updatePart dt p s) p"
      using False by (simp add: updatePart_mesh updatePart_other)
    finally show ?thesis
      by simp
  qed
qed

lemma updatePart_pulsing:
  assumes "pulsing (meshes s p)" and "\<not> hovering (meshes s p)"
    and "originalScale (meshes s p) = Some orig"
  shows "meshes (updatePart dt p s) p =
     (if pulseTime (meshes s p) + dt > 6280
      then (meshes s p)\<lparr>pulseTime := pulseTime (meshes s p) + dt, scale := orig,
                          pulsing := False\<rparr>
      else (meshes s p)\<lparr>pulseTime := pulseTime (meshes s p) + dt,
                          scale := multiplyScalar orig
                             (1 + sin ((pulseTime (meshes s p) + dt) * 0.01) * 0.05)\<rparr>)"
  using assms by (simp add: updatePart_mesh Let_def restoreScale_def)

lemma updatePart_idle:
  assumes "\<not> pulsing (meshes s p)" and "\<not> hovering (meshes s p)"
  shows "meshes (updatePart dt p s) p = meshes s p"
  using assms by (simp add: updatePart_mesh Let_def)

lemma updatePulseFrames_idle:
  assumes "\<not> pulsing (meshes s p)" and "\<not> hovering (meshes s p)"
  shows "meshes (updatePulseFrames ds s) p = meshes s p"
  using assms
proof (induction ds arbitrary: s)
  case Nil
  then show ?case by simp
next
  case (Cons d ds)
  have one: "meshes (updatePulseAnimations d s) p = meshes s p"
  proof (cases "p \<in> set (productParts s)")
    case False
    then show ?thesis
      by (simp add: updatePulseAnimations_def updateParts_other)
  next
    case True
    have "meshes (updateParts d ps s) p = meshes s p" for ps
      using Cons.prems
    proof (induction ps arbitrary: s)
      case Nil
      then show ?case by simp
    next
      case (Cons a ps)
      have "meshes (updatePart d a s) p = meshes s p"
        using Cons.prems by (cases "a = p") (simp_all add: updatePart_idle updatePart_other)
      then show ?case
        using Cons.IH [of "updatePart d a s"] Cons.prems by simp
    qed
    then show ?thesis
      by (simp add: updatePulseAnimations_def)
  qed
  show ?case
    using Cons.IH [of "updatePulseAnimations d s"] Cons.prems one by simp
qed

lemma updatePulseAnimations_pulsing:
  assumes "distinct (productParts s)" and "p \<in> set (productParts s)"
    and "pulsing (meshes s p)" and "\<not> hovering (meshes s p)"
    and "originalScale (meshes s p) = Some orig"
  shows "meshes (updatePulseAnimations dt s) p =
     (if pulseTime (meshes s p) + dt > 6280
      then (meshes s p)\<lparr>pulseTime := pulseTime (meshes s p) + dt, scale := orig,
                          pulsing := False\<rparr>
      else (meshes s p)\<lparr>pulseTime := pulseTime (meshes s p) + dt,
                          scale := multiplyScalar orig
                             (1 + sin ((pulseTime (meshes s p) + dt) * 0.01) * 0.05)\<rparr>)"
proof -
  have "meshes (updatePulseAnimations dt s) p = meshes (updatePart dt p s) p"
    using assms(1,2) by (simp add: updatePulseAnimations_def updateParts_member)
  then show ?thesis
    using updatePart_pulsing [OF assms(3,4,5), of dt] by simp
qed

lemma pulse_frames:
  assumes "distinct (productParts s)" and "p \<in> set (productParts s)"
    and "pulsing (meshes s p)" and "\<not> hovering (meshes s p)"
    and "originalScale (meshes s p) = Some orig"
    and "pulseTime (meshes s p) \<le> 6280"
    and "\<forall>d\<in>set ds. 0 \<le> d"
  shows "if pulseTime (meshes s p) + sum_list ds \<le> 6280
         then pulsing (meshes (updatePulseFrames ds s) p)
              \<and> pulseTime (meshes (updatePulseFrames ds s) p)
                  = pulseTime (meshes s p) + sum_list ds
              \<and> (ds \<noteq> [] \<longrightarrow>
                   scale (meshes (updatePulseFrames ds s) p)
                     = multiplyScalar orig
                         (1 + sin ((pulseTime (meshes s p) + sum_list ds) * 0.01) * 0.05))
         else \<not> pulsing (meshes (updatePulseFrames ds s) p)
              \<and> scale (meshes (updatePulseFrames ds s) p) = orig"
  using assms
proof (induction ds arbitrary: s)
  case Nil
  then show ?case by simp
next
  case (Cons d ds)
  let ?s1 = "updatePulseAnimations d s"
  let ?t1 = "pulseTime (meshes s p) + d"
  have nonneg: "0 \<le> d" "\<forall>d\<in>set ds. 0 \<le> d" "0 \<le> sum_list ds"
    using Cons.prems(7) by (simp_all add: sum_list_nonneg)
  have m1: "meshes ?s1 p =
     (if ?t1 > 6280
      then (meshes s p)\<lparr>pulseTime := ?t1, scale := orig, pulsing := False\<rparr>
      else (meshes s p)\<lparr>pulseTime := ?t1,
                          scale := multiplyScalar orig (1 + sin (?t1 * 0.01) * 0.05)\<rparr>)"
    by (rule updatePulseAnimations_pulsing [OF Cons.prems(1-5)])
  show ?case
  proof (cases "?t1 > 6280")
    case True
    have stop: "\<not> pulsing (meshes ?s1 p)" "\<not> hovering (meshes ?s1 p)"
      "scale (meshes ?s1 p) = orig"
      using True Cons.prems(4) by (simp_all add: m1)
    have "meshes (updatePulseFrames ds ?s1) p = meshes ?s1 p"
      by (rule updatePulseFrames_idle [OF stop(1,2)])
    then show ?thesis
      using True stop nonneg by simp
  next
    case False
    have keep: "distinct (productParts ?s1)" "p \<in> set (productParts ?s1)"
      "pulsing (meshes ?s1 p)" "\<not> hovering (meshes ?s1 p)"
      "originalScale (meshes ?s1 p) = Some orig" "pulseTime (meshes ?s1 p) \<le> 6280"
      using False Cons.prems(1-5)
      by (simp_all add: m1) (simp_all add: updatePulseAnimations_def updateParts_simps)
    have t1: "pulseTime (meshes ?s1 p) = ?t1"
      "scale (meshes ?s1 p) = multiplyScalar orig (1 + sin (?t1 * 0.01) * 0.05)"
      using False by (simp_all add: m1)
    have total: "?t1 + sum_list ds = pulseTime (meshes s p) + sum_list (d # ds)"
      by simp
    have ih: "if ?t1 + sum_list ds \<le> 6280
         then pulsing (meshes (updatePulseFrames ds ?s1) p)
              \<and> pulseTime (meshes (updatePulseFrames ds ?s1) p) = ?t1 + sum_list ds
              \<and> (ds \<noteq> [] \<longrightarrow>
                   scale (meshes (updatePulseFrames ds ?s1) p)
                     = multiplyScalar orig (1 + sin ((?t1 + sum_list ds) * 0.01) * 0.05))
         else \<not> pulsing (meshes (updatePulseFrames ds ?s1) p)
              \<and> scale (meshes (updatePulseFrames ds ?s1) p) = orig"
      using Cons.IH [OF keep nonneg(2)] unfolding t1(1) .
    show ?thesis
    proof (cases "ds = []")
      case True
      then show ?thesis
        using False keep(3) t1 by simp
    next
      case nonempty: False
      show ?thesis
        using ih nonempty unfolding total by simp
    qed
  qed
qed

text \<open>
  Claim C5. The selection pulse is bounded. For a pulsing part of the manager, over any
  run of animation frames with non-negative \<^verbatim>\<open>deltaTime\<close>: as long as the accumulated
  pulse time is at most 6280 ms the part is pulsing and its scale is its stored original
  scale times \<open>1 + sin (pulseTime * 0.01) * 0.05\<close>; once the accumulated pulse time has
  exceeded 6280 ms the pulse flag is off and the scale is exactly the stored original
  scale, and it stays so over the remaining frames.
\<close>

theorem pulse_is_bounded:
  assumes "consistent s"
    and "distinct (productParts s)" and "p \<in> set (productParts s)"
    and "pulsing (meshes s p)"
    and "\<forall>d\<in>set ds. 0 \<le> d"
  shows "\<exists>orig. originalScale (meshes s p) = Some orig
       \<and> (if pulseTime (meshes s p) + sum_list ds \<le> 6280
          then pulsing (meshes (updatePulseFrames ds s) p)
               \<and> pulseTime (meshes (updatePulseFrames ds s) p)
                   = pulseTime (meshes s p) + sum_list ds
               \<and> (ds \<noteq> [] \<longrightarrow>
                    scale (meshes (updatePulseFrames ds s) p)
                      = multiplyScalar orig
                          (1 + sin ((pulseTime (meshes s p) + sum_list ds) * 0.01) * 0.05))
          else \<not> pulsing (meshes (updatePulseFrames ds s) p)
               \<and> scale (meshes (updatePulseFrames ds s) p) = orig)"
proof -
  have sel: "selectedObject s = Some p" and bound: "pulseTime (meshes s p) \<le> 6280"
    using assms(1,4) by (simp_all add: consistent_def)
  have "originalScale (meshes s p) \<noteq> None"
    using assms(1) sel by (simp add: consistent_def)
  then obtain orig where orig: "originalScale (meshes s p) = Some orig"
    by blast
  have nohover: "\<not> hovering (meshes s p)"
    using assms(1) sel by (auto simp add: consistent_def)
  show ?thesis
    using pulse_frames [OF assms(2,3,4) nohover orig bound assms(5)] orig by blast
qed

lemma viewer_consistent: "consistent (projr viewer)"
  by (rule InteractionManager_consistent [of createMaterials 3 chairMeshes chairParts])
     (simp_all add: viewer_state viewer_def [symmetric] chairMeshes_def newMesh_def)

theorem pulse_is_bounded_witness:
  "consistent (projr (reactAll [PointerClick [1]] (projr viewer)))
   \<and> distinct (productParts (projr (reactAll [PointerClick [1]] (projr viewer))))
   \<and> 1 \<in> set (productParts (projr (reactAll [PointerClick [1]] (projr viewer))))
   \<and> pulsing (meshes (projr (reactAll [PointerClick [1]] (projr viewer))) 1)
   \<and> pulsing (meshes (updatePulseFrames [16, 17]
        (projr (reactAll [PointerClick [1]] (projr viewer)))) 1)
   \<and> pulseTime (meshes (updatePulseFrames [16, 17]
        (projr (reactAll [PointerClick [1]] (projr viewer)))) 1) = 33
   \<and> scale (meshes (updatePulseFrames [16, 17]
        (projr (reactAll [PointerClick [1]] (projr viewer)))) 1)
       = multiplyScalar (Vector3 1 1 1) (1 + sin (33 * 0.01) * 0.05)
   \<and> \<not> pulsing (meshes (updatePulseFrames [3000, 3000, 1000]
        (projr (reactAll [PointerClick [1]] (projr viewer)))) 1)
   \<and> scale (meshes (updatePulseFrames [3000, 3000, 1000]
        (projr (reactAll [PointerClick [1]] (projr viewer)))) 1) = Vector3 1 1 1"
proof -
  let ?s = "projr (reactAll [PointerClick [1]] (projr viewer))"
  have run: "reactAll [PointerClick [1]] (projr viewer) = Inr ?s"
    by (simp add: viewer_state interaction_defs chairMeshes_def newMesh_def)
  have c: "consistent ?s"
    by (rule reactAll_consistent [OF viewer_consistent run])
  have parts: "distinct (productParts ?s)" "1 \<in> set (productParts ?s)"
    by (simp_all add: viewer_state interaction_defs chairMeshes_def newMesh_def chairParts_def)
  have mesh: "pulsing (meshes ?s 1)" "pulseTime (meshes ?s 1) = 0"
    "originalScale (meshes ?s 1) = Some (Vector3 1 1 1)"
    by (simp_all add: viewer_state interaction_defs chairMeshes_def newMesh_def)
  have short: "\<forall>d\<in>set [16, 17 :: real]. 0 \<le> d"
    and long: "\<forall>d\<in>set [3000, 3000, 1000 :: real]. 0 \<le> d"
    by simp_all
  show ?thesis
    using pulse_is_bounded [OF c parts mesh(1) short] pulse_is_bounded [OF c parts mesh(1) long]
      c parts mesh
    by simp
qed

subsection \<open>Hovering a part and leaving it\<close>

lemma multiplyScalar_changes:
  assumes "v \<noteq> Vector3 0 0 0"
  shows "multiplyScalar v 1.05 \<noteq> v"
proof
  assume eq: "multiplyScalar v 1.05 = v"
  obtain a b c where v: "v = Vector3 a b c"
    by (cases v)
  have "a * 1.05 = a" "b * 1.05 = b" "c * 1.05 = c"
    using eq by (simp_all add: v multiplyScalar_def)
  then have "a = 0" "b = 0" "c = 0"
    by simp_all
  then show False
    using assms v by simp
qed

text \<open>
  Claim C1, as amended. Take a pointer move whose nearest hit is an interactive part
  that is not the selected part, is not already recorded as the hovered part, and has a
  non-zero scale. After the move the part is the hovered one, its material is a fresh
  clone, which is not its stored original, its recorded original scale is the scale it
  had, and its scale is 1.05 times that, which differs from it. After any animation
  frames and a pointer move that hits nothing, no part is hovered, the part has the
  material reference stored for it in \<open>originalMaterials\<close>, the parameters of that
  material are unchanged, and the part has the scale it had before the hover.
\<close>

theorem hover_then_leave:
  assumes "consistent s" and "originalMaterials s m = Some r"
    and "selectedObject s \<noteq> Some m" and "hoveredObject s \<noteq> Some m"
    and "scale (meshes s m) \<noteq> Vector3 0 0 0"
  shows "\<exists>s1 s2. handleHover (m # rest) s = Inr s1
       \<and> hoveredObject s1 = Some m
       \<and> material (meshes s1 m) = Some (materialNext s)
       \<and> material (meshes s1 m) \<noteq> originalMaterials s1 m
       \<and> originalScale (meshes s1 m) = Some (scale (meshes s m))
       \<and> scale (meshes s1 m) = multiplyScalar (scale (meshes s m)) 1.05
       \<and> scale (meshes s1 m) \<noteq> scale (meshes s m)
       \<and> handleHover [] (updatePulseFrames ds s1) = Inr s2
       \<and> hoveredObject s2 = None
       \<and> material (meshes s2 m) = Some r
       \<and> originalMaterials s2 m = Some r
       \<and> materialStore s2 r = materialStore s r
       \<and> scale (meshes s2 m) = scale (meshes s m)"
proof -
  let ?a = "(clearHover s)\<lparr>hoveredObject := Some m\<rparr>"
  have a: "selectedObject ?a \<noteq> Some m" "originalMaterials ?a m = Some r"
    "meshes ?a m = meshes s m" "materialNext ?a = materialNext s"
    "materialStore ?a = materialStore s" "originalMaterials ?a = originalMaterials s"
    "selectedObject ?a = selectedObject s"
    using assms(2,3,4) by (simp_all add: clearHover_simps)
  have alloc: "r < materialNext s"
    using assms(1,2) by (auto simp add: consistent_def)
  have rest_scale: "originalScale (meshes s m) = None
      \<or> originalScale (meshes s m) = Some (scale (meshes s m))"
    using assms(1,3,4) by (cases "originalScale (meshes s m)") (auto simp add: consistent_def)
  define s1 where "s1 = (projr (applyHoverEffect m ?a))\<lparr>cursor := ''pointer''\<rparr>"
  have run1: "handleHover (m # rest) s = Inr s1"
    using assms(4) by (simp add: handleHover_def s1_def applyHoverEffect_Inr [OF a(1,2)])
  have f1: "hoveredObject s1 = Some m" "selectedObject s1 = selectedObject s"
    "material (meshes s1 m) = Some (materialNext s)"
    "originalMaterials s1 = originalMaterials s"
    "scale (meshes s1 m) = multiplyScalar (scale (meshes s m)) 1.05"
    "materialStore s1 r = materialStore s r"
    using alloc assms(4)
    by (simp_all add: s1_def applyHoverEffect_Inr [OF a(1,2)] clearHover_simps
        rememberScale_simps)
  have f1_orig: "originalScale (meshes s1 m) = Some (scale (meshes s m))"
    using rest_scale assms(4)
    by (auto simp add: s1_def applyHoverEffect_Inr [OF a(1,2)] clearHover_simps
        rememberScale_simps)
  have differs: "material (meshes s1 m) \<noteq> originalMaterials s1 m"
    "scale (meshes s1 m) \<noteq> scale (meshes s m)"
    using alloc assms(2) multiplyScalar_changes [OF assms(5)] by (simp_all add: f1)
  let ?f = "updatePulseFrames ds s1"
  have f: "hoveredObject ?f = Some m" "selectedObject ?f \<noteq> Some m"
    "originalMaterials ?f m = Some r" "materialStore ?f r = materialStore s r"
    "originalScale (meshes ?f m) = Some (scale (meshes s m))"
    using assms(2,3) by (simp_all add: updatePulseFrames_simps f1 f1_orig)
  have run2: "handleHover [] ?f = Inr (clearHover ?f)"
    by (simp add: handleHover_def)
  have f2: "hoveredObject (clearHover ?f) = None"
    "material (meshes (clearHover ?f) m) = Some r"
    "originalMaterials (clearHover ?f) m = Some r"
    "materialStore (clearHover ?f) r = materialStore s r"
    "scale (meshes (clearHover ?f) m) = scale (meshes s m)"
    using f by (auto simp add: clearHover_simps restoreScale_simps)
  show ?thesis
    using run1 f1 f1_orig differs run2 f2 by blast
qed

theorem hover_then_leave_witness:
  "consistent (projr viewer)
   \<and> originalMaterials (projr viewer) 1 = Some 4
   \<and> selectedObject (projr viewer) \<noteq> Some 1
   \<and> hoveredObject (projr viewer) \<noteq> Some 1
   \<and> scale (meshes (projr viewer) 1) \<noteq> Vector3 0 0 0
   \<and> hoveredObject (projr (handleHover [1] (projr viewer))) = Some 1
   \<and> material (meshes (projr (handleHover [1] (projr viewer))) 1) = Some 6
   \<and> scale (meshes (projr (handleHover [1] (projr viewer))) 1)
       = multiplyScalar (Vector3 1 1 1) 1.05
   \<and> material (meshes (projr (handleHover []
         (updatePulseFrames [16, 16] (projr (handleHover [1] (projr viewer)))))) 1) = Some 4
   \<and> scale (meshes (projr (handleHover []
         (updatePulseFrames [16, 16] (projr (handleHover [1] (projr viewer)))))) 1)
       = Vector3 1 1 1"
proof -
  have h: "originalMaterials (projr viewer) 1 = Some 4" "selectedObject (projr viewer) \<noteq> Some 1"
    "hoveredObject (projr viewer) \<noteq> Some 1" "scale (meshes (projr viewer) 1) \<noteq> Vector3 0 0 0"
    and sc: "scale (meshes (projr viewer) 1) = Vector3 1 1 1"
    and nx: "materialNext (projr viewer) = 6"
    by (simp_all add: viewer_state chairMeshes_def newMesh_def)
  obtain s1 s2 where
    r1: "handleHover [1] (projr viewer) = Inr s1"
    and p1: "hoveredObject s1 = Some 1" "material (meshes s1 1) = Some (materialNext (projr viewer))"
      "scale (meshes s1 1) = multiplyScalar (scale (meshes (projr viewer) 1)) 1.05"
    and r2: "handleHover [] (updatePulseFrames [16, 16] s1) = Inr s2"
    and p2: "material (meshes s2 1) = Some 4" "scale (meshes s2 1) = scale (meshes (projr viewer) 1)"
    using hover_then_leave [OF viewer_consistent h, of "[]" "[16, 16]"] by blast
  have e1: "projr (handleHover [1] (projr viewer)) = s1"
    by (simp only: r1 sum.sel)
  have e2: "projr (handleHover [] (updatePulseFrames [16, 16] s1)) = s2"
    by (simp only: r2 sum.sel)
  show ?thesis
    unfolding e1 e2 using viewer_consistent h p1 p2 sc nx by simp
qed

text \<open>
  The claim as first stated fails in three ways. After a move onto the backrest (part 1)
  and a move off all parts, the backrest has the stored clone (reference 4), not the
  shared wood material (reference 0) it had at startup. After a click on the backrest and
  the end of its pulse, a move onto the backrest, which is then the selected part, leaves
  its scale at the stored original scale. After a move onto the backrest, a click on it and
  a click on empty space, a move that hits only the backrest leaves it with its stored
  original material, because the manager still records it as hovered.
\<close>

theorem hover_claim_counterexample:
  "reactAll [PointerMove [1], PointerMove []] (projr viewer)
     = Inr (projr (reactAll [PointerMove [1], PointerMove []] (projr viewer)))
   \<and> material (meshes (projr viewer) 1) = Some 0
   \<and> material (meshes (projr (reactAll [PointerMove [1], PointerMove []] (projr viewer))) 1)
       \<noteq> material (meshes (projr viewer) 1)
   \<and> reactAll [PointerClick [1], Tick 7000, PointerMove [1]] (projr viewer)
     = Inr (projr (reactAll [PointerClick [1], Tick 7000, PointerMove [1]] (projr viewer)))
   \<and> hoveredObject
        (projr (reactAll [PointerClick [1], Tick 7000, PointerMove [1]] (projr viewer))) = Some 1
   \<and> originalScale (meshes
        (projr (reactAll [PointerClick [1], Tick 7000, PointerMove [1]] (projr viewer))) 1)
       = Some (scale (meshes
        (projr (reactAll [PointerClick [1], Tick 7000, PointerMove [1]] (projr viewer))) 1))
   \<and> reactAll [PointerMove [1], PointerClick [1], PointerClick [], PointerMove [1]] (projr viewer)
     = Inr (projr (reactAll [PointerMove [1], PointerClick [1], PointerClick [], PointerMove [1]]
                     (projr viewer)))
   \<and> selectedObject
        (projr (reactAll [PointerMove [1], PointerClick [1], PointerClick [], PointerMove [1]]
                  (projr viewer))) = None
   \<and> material (meshes
        (projr (reactAll [PointerMove [1], PointerClick [1], PointerClick [], PointerMove [1]]
                  (projr viewer))) 1)
       = originalMaterials
        (projr (reactAll [PointerMove [1], PointerClick [1], PointerClick [], PointerMove [1]]
                  (projr viewer))) 1"
  by (simp add: viewer_state interaction_defs chairMeshes_def newMesh_def chairParts_def
      updatePulseAnimations_def updatePart_def)

end
